theory Spec2Isabelle
  imports Complex_Main
begin

section \<open>Values, weights and errors\<close>

text \<open>
  The module \<open>aptools/data_analysis/beam_diagnostics.py\<close> computes beam diagnostics from
  per-particle arrays with numpy. A numpy array of floats is a \<open>real list\<close>: the
  arithmetic is the exact arithmetic of the real numbers, rounding is not modelled. A float
  that numpy computes without a finite value (an infinity or a NaN: a division by zero, the
  square root of a negative number) is \<open>None\<close> of the type \<open>fl\<close>; numpy only warns there
  and goes on, and in every path below such a value stays non-finite up to the result.
  A raised exception is \<open>Inl\<close> of a result.

  The arrays of one call have one length (the particles of one ensemble); the definitions
  pair them up with \<open>zip\<close> and are meant for such arrays. The statistical weight \<open>w\<close> is either
  one number (the default \<open>w=1\<close>) or an array.
\<close>

datatype error =
    TypeError | ValueError | IndexError | RuntimeError | ZeroDivisionError
  | OverflowError | UnboundLocalError | LinAlgError | DegenerateInputError

type_synonym fl = "real option"

datatype weights = Scalar real | Array "real list"

definition fdiv :: "real \<Rightarrow> real \<Rightarrow> fl" where
  "fdiv a b = (if b = 0 then None else Some (a / b))"

definition fsqrt :: "real \<Rightarrow> fl" where
  "fsqrt a = (if a < 0 then None else Some (sqrt a))"

definition np_abs :: "weights \<Rightarrow> weights" where
  "np_abs w = (case w of Scalar s \<Rightarrow> Scalar \<bar>s\<bar> | Array ws \<Rightarrow> Array (map abs ws))"

section \<open>The numpy functions the module calls\<close>

text \<open>
  \<open>np.average(a, weights=w)\<close> on a one-dimensional \<open>a\<close>: numpy raises TypeError when the
  shapes of \<open>a\<close> and \<open>w\<close> differ (so for every scalar \<open>w\<close>) and ZeroDivisionError when the
  weights sum to zero; otherwise the value is \<open>sum(a*w)/sum(w)\<close>.
\<close>

definition avg_weights :: "nat \<Rightarrow> weights \<Rightarrow> error + real list" where
  "avg_weights n w =
     (case w of
        Scalar s \<Rightarrow> Inl TypeError
      | Array ws \<Rightarrow>
          if length ws \<noteq> n then Inl TypeError
          else if sum_list ws = 0 then Inl ZeroDivisionError
          else Inr ws)"

definition wmean :: "real list \<Rightarrow> real list \<Rightarrow> real" where
  "wmean a ws = sum_list (map2 (*) a ws) / sum_list ws"

definition np_average :: "real list \<Rightarrow> weights \<Rightarrow> error + real" where
  "np_average a w =
     (case avg_weights (length a) w of
        Inl e \<Rightarrow> Inl e
      | Inr ws \<Rightarrow> Inr (wmean a ws))"

definition np_average_fl :: "fl list \<Rightarrow> weights \<Rightarrow> error + fl" where
  "np_average_fl a w =
     (case avg_weights (length a) w of
        Inl e \<Rightarrow> Inl e
      | Inr ws \<Rightarrow> Inr (map_option (\<lambda>v. wmean v ws) (those a)))"

text \<open>
  \<open>np.cov(x, y, aweights=a)\<close>, the 2x2 covariance matrix of two rows with the default
  \<open>ddof=1\<close>. numpy stacks the rows (ValueError when their lengths differ), reads
  \<open>aweights.shape[0]\<close> (IndexError for a scalar), compares it with the number of samples
  (RuntimeError), rejects a negative weight (ValueError) and averages the rows with the
  weights (ZeroDivisionError when they sum to zero). The normalisation is
  \<open>fact = sum(a) - sum(a*a)/sum(a)\<close>; numpy sets a \<open>fact \<le> 0\<close> to zero with a warning and
  multiplies by \<open>1/fact\<close>, which leaves no finite entry.
\<close>

type_synonym mat2 = "real \<times> real \<times> real \<times> real"

definition cov_weights :: "nat \<Rightarrow> nat \<Rightarrow> weights \<Rightarrow> error + real list" where
  "cov_weights n m aw =
     (if n \<noteq> m then Inl ValueError
      else case aw of
        Scalar s \<Rightarrow> Inl IndexError
      | Array a \<Rightarrow>
          if length a \<noteq> n then Inl RuntimeError
          else if list_ex (\<lambda>v. v < 0) a then Inl ValueError
          else if sum_list a = 0 then Inl ZeroDivisionError
          else Inr a)"

definition cov_entry :: "real list \<Rightarrow> real list \<Rightarrow> real list \<Rightarrow> real" where
  "cov_entry u v a =
     sum_list (map (\<lambda>(p, q, c). c * (p - wmean u a) * (q - wmean v a)) (zip u (zip v a)))"

definition cov_matrix :: "real list \<Rightarrow> real list \<Rightarrow> real list \<Rightarrow> mat2 option" where
  "cov_matrix x y a =
     (let fact = sum_list a - sum_list (map (\<lambda>c. c * c) a) / sum_list a
      in if fact \<le> 0 then None
         else Some (cov_entry x x a / fact, cov_entry x y a / fact,
                    cov_entry y x a / fact, cov_entry y y a / fact))"

definition np_cov :: "fl list \<Rightarrow> fl list \<Rightarrow> weights \<Rightarrow> error + mat2 option" where
  "np_cov x y aw =
     (case cov_weights (length x) (length y) aw of
        Inl e \<Rightarrow> Inl e
      | Inr a \<Rightarrow>
          Inr (case (those x, those y) of
                 (Some xs, Some ys) \<Rightarrow> cov_matrix xs ys a
               | _ \<Rightarrow> None))"

definition np_linalg_det :: "mat2 \<Rightarrow> real" where
  "np_linalg_det m = (case m of (a, b, c, d) \<Rightarrow> a * d - b * c)"

text \<open>\<open>np.sqrt(np.linalg.det(cov))\<close>: NaN for a negative determinant or a non-finite matrix.\<close>

definition sqrt_det :: "mat2 option \<Rightarrow> fl" where
  "sqrt_det c = (case c of None \<Rightarrow> None | Some m \<Rightarrow> fsqrt (np_linalg_det m))"

text \<open>
  \<open>np.polyfit(x, y, 1, w=w)\<close>: the line \<open>p[0]*x + p[1]\<close> that minimises
  \<open>sum((w*(y - p(x)))**2)\<close>; without \<open>w\<close> every weight is 1. numpy raises TypeError for an
  empty \<open>x\<close>, for lengths that differ and for a \<open>w\<close> that is not one-dimensional. It divides
  the columns \<open>w*x\<close> and \<open>w\<close> of the design matrix by their norms before the least-squares
  solver: a column of zeros becomes NaN and the solver fails (LinAlgError), as it does on
  data that is not finite. Two proportional columns (every weighted \<open>x\<close> the same non-zero
  number) give the solution of least norm of the scaled system, with a RankWarning.
\<close>

definition fit_line :: "real list \<Rightarrow> real list \<Rightarrow> real list \<Rightarrow> error + real \<times> real" where
  "fit_line x y ws =
     (let w2 = map (\<lambda>c. c * c) ws;
          s0 = sum_list w2;
          sx = sum_list (map2 (*) w2 x);
          sy = sum_list (map2 (*) w2 y);
          sxx = sum_list (map2 (*) w2 (map (\<lambda>v. v * v) x));
          sxy = sum_list (map2 (*) w2 (map2 (*) x y));
          d = s0 * sxx - sx * sx
      in if s0 = 0 \<or> sxx = 0 then Inl LinAlgError
         else if d = 0 then Inr (sy / (2 * sx), sy / (2 * s0))
         else let k = (s0 * sxy - sx * sy) / d in Inr (k, (sy - k * sx) / s0))"


definition np_polyfit1 :: "fl list \<Rightarrow> fl list \<Rightarrow> weights option \<Rightarrow> error + real \<times> real" where
  "np_polyfit1 x y w =
     (if x = [] then Inl TypeError
      else if length x \<noteq> length y then Inl TypeError
      else case (case w of
                   None \<Rightarrow> Inr (replicate (length x) 1)
                 | Some (Scalar s) \<Rightarrow> Inl TypeError
                 | Some (Array ws) \<Rightarrow> if length ws \<noteq> length y then Inl TypeError else Inr ws) of
             Inl e \<Rightarrow> Inl e
           | Inr ws \<Rightarrow>
               (case (those x, those y) of
                  (Some xs, Some ys) \<Rightarrow> fit_line xs ys ws
                | _ \<Rightarrow> Inl LinAlgError))"

text \<open>
  \<open>np.polyfit(x, y, 2, w=w)\<close> with an array \<open>w\<close> is a parameter of the functions that call
  it, of this type: it returns \<open>(p[0], p[1], p[2])\<close> or raises. No property below depends on
  the coefficients of the quadratic fit.
\<close>

type_synonym polyfit2 = "real list \<Rightarrow> real list \<Rightarrow> real list \<Rightarrow> error + real \<times> real \<times> real"

section \<open>The helper functions of \<open>aptools.helper_functions\<close>\<close>

text \<open>
  Modelled from the spec: \<open>weighted_std(values, weights)\<close> of
  \<open>aptools.helper_functions\<close>, which is not among the sources. The spec has it as the
  weighted standard deviation, "population, not sample-corrected", with weights that may be
  one uniform number, failing with DegenerateInputError when all weights are zero.
\<close>

definition weights_list :: "nat \<Rightarrow> weights \<Rightarrow> real list" where
  "weights_list n w = (case w of Scalar s \<Rightarrow> replicate n s | Array ws \<Rightarrow> ws)"

definition wvariance :: "real list \<Rightarrow> real list \<Rightarrow> real" where
  "wvariance v ws =
     sum_list (map2 (*) (map (\<lambda>a. (a - wmean v ws) * (a - wmean v ws)) v) ws) / sum_list ws"

definition weighted_std :: "fl list \<Rightarrow> weights \<Rightarrow> error + fl" where
  "weighted_std values w =
     (let ws = weights_list (length values) w
      in if list_all (\<lambda>c. c = 0) ws then Inl DegenerateInputError
         else Inr (case those values of
                     None \<Rightarrow> None
                   | Some v \<Rightarrow> if sum_list ws = 0 then None else fsqrt (wvariance v ws)))"

text \<open>
  Modelled from the spec: \<open>slope_of_correlation(y, x, w)\<close> of \<open>aptools.helper_functions\<close>,
  which is not among the sources. The spec has it as the slope of the weighted linear
  regression of the coordinate \<open>y\<close> against \<open>x\<close>, failing with DegenerateInputError when all
  weights are zero or fewer than two points are supplied; without \<open>w\<close> the weights are
  uniform.
\<close>

definition slope_of_correlation :: "fl list \<Rightarrow> fl list \<Rightarrow> weights option \<Rightarrow> error + fl" where
  "slope_of_correlation y x w =
     (let ws = (case w of None \<Rightarrow> replicate (length y) 1 | Some u \<Rightarrow> weights_list (length y) u)
      in if length y < 2 \<or> list_all (\<lambda>c. c = 0) ws then Inl DegenerateInputError
         else Inr (case (those y, those x) of
                     (Some ys, Some xs) \<Rightarrow>
                       if sum_list ws = 0 then None
                       else fdiv (wmean (map2 (*) ys xs) ws - wmean ys ws * wmean xs ws)
                                 (wmean (map (\<lambda>v. v * v) xs) ws - wmean xs ws * wmean xs ws)
                   | _ \<Rightarrow> None))"

section \<open>Energies\<close>

text \<open>\<open>np.sqrt(np.square(px) + np.square(py) + np.square(pz))\<close>, per particle.\<close>

definition momentum :: "real list \<Rightarrow> real list \<Rightarrow> real list \<Rightarrow> real list" where
  "momentum px py pz = map (\<lambda>(a, b, c). sqrt (a * a + b * b + c * c)) (zip px (zip py pz))"

text \<open>\<open>np.sqrt(1 + np.square(px) + np.square(py) + np.square(pz))\<close>, per particle.\<close>

definition energy :: "real list \<Rightarrow> real list \<Rightarrow> real list \<Rightarrow> real list" where
  "energy px py pz = map (\<lambda>(a, b, c). sqrt (1 + a * a + b * b + c * c)) (zip px (zip py pz))"

definition mean_kinetic_energy :: "real list \<Rightarrow> real list \<Rightarrow> real list \<Rightarrow> weights \<Rightarrow> error + real" where
  "mean_kinetic_energy px py pz w = np_average (momentum px py pz) (np_abs w)"

text \<open>
  \<open>np.average(1 + np.sqrt(np.square(kin_ene)))\<close>: the average of one number, without
  weights, is the number.
\<close>

definition mean_energy :: "real list \<Rightarrow> real list \<Rightarrow> real list \<Rightarrow> weights \<Rightarrow> error + real" where
  "mean_energy px py pz w =
     (case mean_kinetic_energy px py pz w of
        Inl e \<Rightarrow> Inl e
      | Inr kin_ene \<Rightarrow> Inr (1 + sqrt (kin_ene * kin_ene)))"

definition rms_energy_spread :: "real list \<Rightarrow> real list \<Rightarrow> real list \<Rightarrow> weights \<Rightarrow> error + fl" where
  "rms_energy_spread px py pz w = weighted_std (map Some (energy px py pz)) w"

definition relative_rms_energy_spread ::
  "real list \<Rightarrow> real list \<Rightarrow> real list \<Rightarrow> weights \<Rightarrow> error + fl" where
  "relative_rms_energy_spread px py pz w =
     (case rms_energy_spread px py pz w of
        Inl e \<Rightarrow> Inl e
      | Inr abs_spread \<Rightarrow>
          (case mean_energy px py pz w of
             Inl e \<Rightarrow> Inl e
           | Inr mean_ene \<Rightarrow> Inr (Option.bind abs_spread (\<lambda>s. fdiv s mean_ene))))"

definition rms_length :: "real list \<Rightarrow> weights \<Rightarrow> error + fl" where
  "rms_length z w = weighted_std (map Some z) w"

section \<open>Longitudinal chirp and correlated energy spread\<close>

definition longitudinal_energy_chirp ::
  "real list \<Rightarrow> real list \<Rightarrow> real list \<Rightarrow> real list \<Rightarrow> weights \<Rightarrow> error + real" where
  "longitudinal_energy_chirp z px py pz w =
     (let ene = energy px py pz
      in case np_average ene w of
           Inl e \<Rightarrow> Inl e
         | Inr mean_ene \<Rightarrow>
             (case np_average z w of
                Inl e \<Rightarrow> Inl e
              | Inr mean_z \<Rightarrow>
                  (let dE_rel = map (\<lambda>v. fdiv (v - mean_ene) mean_ene) ene;
                       dz = map (\<lambda>v. Some (v - mean_z)) z
                   in case np_polyfit1 dz dE_rel None of
                        Inl e \<Rightarrow> Inl e
                      | Inr p \<Rightarrow> Inr (fst p))))"

definition rms_correlated_energy_spread ::
  "real list \<Rightarrow> real list \<Rightarrow> real list \<Rightarrow> real list \<Rightarrow> weights \<Rightarrow> error + fl" where
  "rms_correlated_energy_spread z px py pz w =
     (case longitudinal_energy_chirp z px py pz w of
        Inl e \<Rightarrow> Inl e
      | Inr K \<Rightarrow>
          (case np_average z w of
             Inl e \<Rightarrow> Inl e
           | Inr mean_z \<Rightarrow>
               (let dz = map (\<lambda>v. v - mean_z) z;
                    corr_ene = map (\<lambda>d. Some (K * d)) dz
                in weighted_std corr_ene w)))"

section \<open>Emittances\<close>

text \<open>\<open>dgamma = (gamma - gamma_avg)/gamma_avg\<close>: no entry is finite when \<open>gamma_avg\<close> is 0.\<close>

definition dgamma_of :: "real list \<Rightarrow> real \<Rightarrow> fl list" where
  "dgamma_of gamma gamma_avg = map (\<lambda>g. fdiv (g - gamma_avg) gamma_avg) gamma"

text \<open>\<open>a - s*d\<close> on arrays that may hold non-finite entries, with a slope that may be one.\<close>

definition sub_scaled :: "fl list \<Rightarrow> fl \<Rightarrow> fl list \<Rightarrow> fl list" where
  "sub_scaled a s d =
     map2 (\<lambda>u v. case (u, s, v) of (Some p, Some k, Some q) \<Rightarrow> Some (p - k * q) | _ \<Rightarrow> None) a d"

text \<open>
  Lines 363 to 372 of \<open>normalized_transverse_rms_emittance\<close>, the branch
  \<open>if disp_corrected\<close>: the new \<open>x\<close>. \<open>np.square(None)\<close> raises TypeError; \<open>x_avg\<close> and
  \<open>slope\<close> are computed and not used.
\<close>

definition remove_quadratic ::
  "polyfit2 \<Rightarrow> real list \<Rightarrow> real list \<Rightarrow> real list option \<Rightarrow> real list option \<Rightarrow> weights
     \<Rightarrow> error + real list" where
  "remove_quadratic pf2 x px py pz w =
     (case (py, pz) of
        (Some py', Some pz') \<Rightarrow>
          (let gamma = momentum px py' pz'
           in case np_average gamma w of
                Inl e \<Rightarrow> Inl e
              | Inr gamma_avg \<Rightarrow>
                  (case np_average x w of
                     Inl e \<Rightarrow> Inl e
                   | Inr x_avg \<Rightarrow>
                       (case those (dgamma_of gamma gamma_avg) of
                          None \<Rightarrow> Inl LinAlgError
                        | Some dgamma \<Rightarrow>
                            (case pf2 dgamma x (weights_list (length x) w) of
                               Inl e \<Rightarrow> Inl e
                             | Inr (s2, s1, s0) \<Rightarrow>
                                 (case slope_of_correlation (map Some x) (map Some dgamma) None of
                                    Inl e \<Rightarrow> Inl e
                                  | Inr slope \<Rightarrow>
                                      Inr (map2 (\<lambda>v d. v - s1 * d - s2 * (d * d)) x dgamma))))))
      | _ \<Rightarrow> Inl TypeError)"

definition normalized_transverse_rms_emittance ::
  "polyfit2 \<Rightarrow> real list \<Rightarrow> real list \<Rightarrow> real list option \<Rightarrow> real list option \<Rightarrow> weights
     \<Rightarrow> bool \<Rightarrow> error + fl" where
  "normalized_transverse_rms_emittance pf2 x px py pz w disp_corrected =
     (if length x > 1 then
        (case (if disp_corrected then remove_quadratic pf2 x px py pz w else Inr x) of
           Inl e \<Rightarrow> Inl e
         | Inr x' \<Rightarrow>
             (case np_cov (map Some x') (map Some px) (np_abs w) of
                Inl e \<Rightarrow> Inl e
              | Inr cov_x \<Rightarrow> Inr (sqrt_det cov_x)))
      else Inr (Some 0))"

definition geometric_transverse_rms_emittance ::
  "polyfit2 \<Rightarrow> real list \<Rightarrow> real list \<Rightarrow> real list \<Rightarrow> real list \<Rightarrow> weights \<Rightarrow> bool
     \<Rightarrow> error + fl" where
  "geometric_transverse_rms_emittance pf2 x px py pz w disp_corrected =
     (let gamma = momentum px py pz
      in case np_average gamma w of
           Inl e \<Rightarrow> Inl e
         | Inr gamma_avg \<Rightarrow>
             (case normalized_transverse_rms_emittance pf2 x px (Some py) (Some pz) w
                     disp_corrected of
                Inl e \<Rightarrow> Inl e
              | Inr em_x \<Rightarrow> Inr (Option.bind em_x (\<lambda>v. fdiv v gamma_avg))))"

text \<open>
  Lines 481 to 489 of \<open>transverse_trace_space_rms_emittance\<close>, the branch
  \<open>if disp_corrected\<close>: the new \<open>x\<close> and \<open>xp\<close>.
\<close>

definition remove_linear ::
  "real list \<Rightarrow> fl list \<Rightarrow> real list \<Rightarrow> real list option \<Rightarrow> real list \<Rightarrow> weights
     \<Rightarrow> error + fl list \<times> fl list" where
  "remove_linear x xp px py pz w =
     (case py of
        None \<Rightarrow> Inl TypeError
      | Some py' \<Rightarrow>
          (let gamma = momentum px py' pz
           in case np_average gamma w of
                Inl e \<Rightarrow> Inl e
              | Inr gamma_avg \<Rightarrow>
                  (let dgamma = dgamma_of gamma gamma_avg
                   in case slope_of_correlation (map Some x) dgamma (Some w) of
                        Inl e \<Rightarrow> Inl e
                      | Inr sl \<Rightarrow>
                          (let x' = sub_scaled (map Some x) sl dgamma
                           in case slope_of_correlation xp dgamma (Some w) of
                                Inl e \<Rightarrow> Inl e
                              | Inr sl' \<Rightarrow> Inr (x', sub_scaled xp sl' dgamma)))))"

definition transverse_trace_space_rms_emittance ::
  "real list \<Rightarrow> real list \<Rightarrow> real list option \<Rightarrow> real list option \<Rightarrow> weights \<Rightarrow> bool
     \<Rightarrow> error + fl" where
  "transverse_trace_space_rms_emittance x px py pz w disp_corrected =
     (if length x > 1 then
        (case pz of
           None \<Rightarrow> Inl TypeError
         | Some pz' \<Rightarrow>
             (let xp = map2 fdiv px pz'
              in case (if disp_corrected then remove_linear x xp px py pz' w
                       else Inr (map Some x, xp)) of
                   Inl e \<Rightarrow> Inl e
                 | Inr (x', xp') \<Rightarrow>
                     (case np_cov x' xp' (np_abs w) of
                        Inl e \<Rightarrow> Inl e
                      | Inr cov_x \<Rightarrow> Inr (sqrt_det cov_x))))
      else Inr (Some 0))"

definition normalized_transverse_trace_space_rms_emittance ::
  "real list \<Rightarrow> real list \<Rightarrow> real list \<Rightarrow> real list \<Rightarrow> weights \<Rightarrow> bool \<Rightarrow> error + fl" where
  "normalized_transverse_trace_space_rms_emittance x px py pz w disp_corrected =
     (let gamma = momentum px py pz
      in case np_average gamma w of
           Inl e \<Rightarrow> Inl e
         | Inr gamma_avg \<Rightarrow>
             (case transverse_trace_space_rms_emittance x px (Some py) (Some pz) w
                     disp_corrected of
                Inl e \<Rightarrow> Inl e
              | Inr em_x \<Rightarrow> Inr (map_option (\<lambda>v. v * gamma_avg) em_x)))"

section \<open>Twiss parameters\<close>

text \<open>
  \<open>twiss_parameters\<close> subtracts in place (\<open>x -= x_avg\<close>), which changes the array of the
  caller. The function therefore returns, next to its result, the contents of the five
  arrays of the caller when the call ends, by a \<open>return\<close> or by an exception. The arrays are
  taken to be five distinct numpy arrays of floats.
\<close>

record caller_arrays =
  x_arr :: "fl list"
  px_arr :: "fl list"
  pz_arr :: "real list"
  py_arr :: "real list option"
  w_arr :: weights

text \<open>Elementwise \<open>a*b\<close>, \<open>a - m\<close> and the quotient of two floats that may be non-finite.\<close>

definition mul_fl :: "fl list \<Rightarrow> fl list \<Rightarrow> fl list" where
  "mul_fl a b = map2 (\<lambda>u v. case (u, v) of (Some p, Some q) \<Rightarrow> Some (p * q) | _ \<Rightarrow> None) a b"

definition sub_fl :: "fl list \<Rightarrow> fl \<Rightarrow> fl list" where
  "sub_fl a m = map (\<lambda>u. case (u, m) of (Some p, Some q) \<Rightarrow> Some (p - q) | _ \<Rightarrow> None) a"

definition fdiv_fl :: "fl \<Rightarrow> fl \<Rightarrow> fl" where
  "fdiv_fl a b = (case (a, b) of (Some p, Some q) \<Rightarrow> fdiv p q | _ \<Rightarrow> None)"

text \<open>
  Lines 56 and 57, in \<open>if disp_corrected\<close> of the branch \<open>'ph'\<close>: the new contents of \<open>x\<close>.
\<close>

definition ph_remove_dispersion :: "fl list \<Rightarrow> fl list \<Rightarrow> weights \<Rightarrow> error + fl list" where
  "ph_remove_dispersion x1 dgamma w =
     (case slope_of_correlation x1 dgamma (Some w) of
        Inl e \<Rightarrow> Inl e
      | Inr slope \<Rightarrow> Inr (sub_scaled x1 slope dgamma))"

text \<open>
  The branch \<open>if emitt == 'ph'\<close>, lines 44 to 59, and \<open>g_x\<close> of line 81. \<open>np.square(py)\<close> of
  line 46 raises TypeError for the default \<open>py=None\<close>.
\<close>

definition twiss_ph ::
  "polyfit2 \<Rightarrow> real list \<Rightarrow> real list \<Rightarrow> real list \<Rightarrow> real list option \<Rightarrow> weights \<Rightarrow> bool
     \<Rightarrow> (error + fl \<times> fl \<times> fl) \<times> caller_arrays" where
  "twiss_ph pf2 x px pz py w disp_corrected =
     (let s0 = \<lparr>x_arr = map Some x, px_arr = map Some px, pz_arr = pz, py_arr = py, w_arr = w\<rparr>
      in case normalized_transverse_rms_emittance pf2 x px py (Some pz) w disp_corrected of
           Inl e \<Rightarrow> (Inl e, s0)
         | Inr em_x \<Rightarrow>
      (case py of
         None \<Rightarrow> (Inl TypeError, s0)
       | Some py' \<Rightarrow>
      (let gamma = momentum px py' pz
       in case np_average gamma w of
            Inl e \<Rightarrow> (Inl e, s0)
          | Inr gamma_avg \<Rightarrow>
      (case np_average x w of
         Inl e \<Rightarrow> (Inl e, s0)
       | Inr x_avg \<Rightarrow>
      (case np_average px w of
         Inl e \<Rightarrow> (Inl e, s0)
       | Inr px_avg \<Rightarrow>
      (let x1 = map (\<lambda>v. Some (v - x_avg)) x;
           px1 = map (\<lambda>v. Some (v - px_avg)) px;
           s1 = s0\<lparr>x_arr := x1, px_arr := px1\<rparr>;
           dgamma = dgamma_of gamma gamma_avg
       in case (if disp_corrected then ph_remove_dispersion x1 dgamma w else Inr x1) of
            Inl e \<Rightarrow> (Inl e, s1)
          | Inr x2 \<Rightarrow>
      (let s2 = s1\<lparr>x_arr := x2\<rparr>
       in case np_average_fl (mul_fl x2 x2) w of
            Inl e \<Rightarrow> (Inl e, s2)
          | Inr x_sq \<Rightarrow>
      (case np_average_fl (mul_fl x2 px1) w of
         Inl e \<Rightarrow> (Inl e, s2)
       | Inr x_px \<Rightarrow>
      (let b_x = fdiv_fl (map_option (\<lambda>v. v * gamma_avg) x_sq) em_x;
           a_x = fdiv_fl (map_option uminus x_px) em_x;
           g_x = fdiv_fl (map_option (\<lambda>a. 1 + a * a) a_x) b_x
       in (Inr (a_x, b_x, g_x), s2))))))))))"

text \<open>
  Lines 69 to 78, \<open>if disp_corrected\<close> in the branch \<open>'tr'\<close>: the new \<open>x\<close> and \<open>xp\<close>, and
  with them what the array \<open>x\<close> of the caller holds at the end of the block or at the
  exception.
\<close>

definition tr_remove_dispersion ::
  "fl list \<Rightarrow> fl list \<Rightarrow> real list \<Rightarrow> real list option \<Rightarrow> real list \<Rightarrow> weights
     \<Rightarrow> (error + fl list \<times> fl list) \<times> fl list" where
  "tr_remove_dispersion x1 xp1 px py pz w =
     (case py of
        None \<Rightarrow> (Inl TypeError, x1)
      | Some py' \<Rightarrow>
          (let gamma = momentum px py' pz
           in case np_average gamma w of
                Inl e \<Rightarrow> (Inl e, x1)
              | Inr gamma_avg \<Rightarrow>
                  (let dgamma = dgamma_of gamma gamma_avg
                   in case slope_of_correlation x1 dgamma (Some w) of
                        Inl e \<Rightarrow> (Inl e, x1)
                      | Inr slope \<Rightarrow>
                          (let x2 = sub_scaled x1 slope dgamma
                           in case slope_of_correlation xp1 dgamma (Some w) of
                                Inl e \<Rightarrow> (Inl e, x2)
                              | Inr slope' \<Rightarrow> (Inr (x2, sub_scaled xp1 slope' dgamma), x2)))))"

text \<open>The branch \<open>elif emitt == 'tr'\<close>, lines 61 to 80, and \<open>g_x\<close> of line 81.\<close>

definition twiss_tr ::
  "real list \<Rightarrow> real list \<Rightarrow> real list \<Rightarrow> real list option \<Rightarrow> weights \<Rightarrow> bool
     \<Rightarrow> (error + fl \<times> fl \<times> fl) \<times> caller_arrays" where
  "twiss_tr x px pz py w disp_corrected =
     (let s0 = \<lparr>x_arr = map Some x, px_arr = map Some px, pz_arr = pz, py_arr = py, w_arr = w\<rparr>
      in case transverse_trace_space_rms_emittance x px py (Some pz) w disp_corrected of
           Inl e \<Rightarrow> (Inl e, s0)
         | Inr em_x \<Rightarrow>
      (let xp = map2 fdiv px pz
       in case np_average x w of
            Inl e \<Rightarrow> (Inl e, s0)
          | Inr x_avg \<Rightarrow>
      (case np_average_fl xp w of
         Inl e \<Rightarrow> (Inl e, s0)
       | Inr xp_avg \<Rightarrow>
      (let x1 = map (\<lambda>v. Some (v - x_avg)) x;
           xp1 = sub_fl xp xp_avg
       in case (if disp_corrected then tr_remove_dispersion x1 xp1 px py pz w
                else (Inr (x1, xp1), x1)) of
            (Inl e, x') \<Rightarrow> (Inl e, s0\<lparr>x_arr := x'\<rparr>)
          | (Inr (x2, xp2), x') \<Rightarrow>
      (let s2 = s0\<lparr>x_arr := x'\<rparr>
       in case np_average_fl (mul_fl x2 x2) w of
            Inl e \<Rightarrow> (Inl e, s2)
          | Inr x_sq \<Rightarrow>
      (case np_average_fl (mul_fl x2 xp2) w of
         Inl e \<Rightarrow> (Inl e, s2)
       | Inr x_xp \<Rightarrow>
      (let b_x = fdiv_fl x_sq em_x;
           a_x = fdiv_fl (map_option uminus x_xp) em_x;
           g_x = fdiv_fl (map_option (\<lambda>a. 1 + a * a) a_x) b_x
       in (Inr (a_x, b_x, g_x), s2))))))))"

text \<open>
  \<open>twiss_parameters(x, px, pz, py=None, w=1, emitt='tr', disp_corrected=False)\<close>. With
  another \<open>emitt\<close> than \<open>'ph'\<close> and \<open>'tr'\<close> no branch runs and line 81 reads the unbound
  \<open>a_x\<close>.
\<close>

definition twiss_parameters ::
  "polyfit2 \<Rightarrow> real list \<Rightarrow> real list \<Rightarrow> real list \<Rightarrow> real list option \<Rightarrow> weights \<Rightarrow> string
     \<Rightarrow> bool \<Rightarrow> (error + fl \<times> fl \<times> fl) \<times> caller_arrays" where
  "twiss_parameters pf2 x px pz py w emitt disp_corrected =
     (if emitt = ''ph'' then twiss_ph pf2 x px pz py w disp_corrected
      else if emitt = ''tr'' then twiss_tr x px pz py w disp_corrected
      else (Inl UnboundLocalError,
            \<lparr>x_arr = map Some x, px_arr = map Some px, pz_arr = pz, py_arr = py, w_arr = w\<rparr>))"

text \<open>
  Lines 110 to 122 of \<open>twiss_parameters_corrected\<close>: the new arrays \<open>x\<close> and \<open>px\<close>, bound to
  the local names; the arrays of the caller stay as they are. A fit that returns has read
  finite data only, so the other branches of \<open>those\<close> are never taken.
\<close>

definition remove_dispersion ::
  "real list \<Rightarrow> real list \<Rightarrow> real list \<Rightarrow> real list \<Rightarrow> weights \<Rightarrow> error + real list \<times> real list" where
  "remove_dispersion x px py pz w =
     (let gamma = momentum px py pz
      in case np_average gamma w of
           Inl e \<Rightarrow> Inl e
         | Inr gamma_avg \<Rightarrow>
      (case np_average x w of
         Inl e \<Rightarrow> Inl e
       | Inr x_avg \<Rightarrow>
      (let dgamma = dgamma_of gamma gamma_avg
       in case np_polyfit1 dgamma (map Some x) (Some w) of
            Inl e \<Rightarrow> Inl e
          | Inr p \<Rightarrow>
      (let xp = map2 fdiv px pz
       in case np_polyfit1 dgamma xp (Some w) of
            Inl e \<Rightarrow> Inl e
          | Inr p' \<Rightarrow>
      (case (those dgamma, those xp) of
         (Some dg, Some xps) \<Rightarrow>
           (let x' = map2 (\<lambda>v d. v - fst p * d) x dg;
                xp' = map2 (\<lambda>v d. v - fst p' * d) xps dg
            in Inr (x', map2 (*) xp' pz))
       | _ \<Rightarrow> Inl LinAlgError)))))"

text \<open>
  Line 124 is \<open>twiss_parameters(x, px, pz, w)\<close>: the fourth positional parameter of
  \<open>twiss_parameters\<close> is \<open>py\<close>, so the weights are passed as \<open>py\<close> and \<open>w\<close> keeps its default
  1. Here \<open>w\<close> is an array, since \<open>np.average\<close> has accepted it.
\<close>

definition twiss_parameters_corrected ::
  "polyfit2 \<Rightarrow> real list \<Rightarrow> real list \<Rightarrow> real list \<Rightarrow> real list \<Rightarrow> weights
     \<Rightarrow> error + fl \<times> fl \<times> fl" where
  "twiss_parameters_corrected pf2 x px py pz w =
     (case remove_dispersion x px py pz w of
        Inl e \<Rightarrow> Inl e
      | Inr (x', px') \<Rightarrow>
          fst (twiss_parameters pf2 x' px' pz (Some (weights_list (length x) w)) (Scalar 1)
                 ''tr'' False))"

text \<open>
  What the spec says of \<open>twiss_parameters_corrected\<close>, to compare with: the uncorrected
  trace-space \<open>twiss_parameters\<close> on the corrected \<open>x\<close> and momenta "with the same weights
  w".
\<close>

definition twiss_parameters_corrected_spec ::
  "polyfit2 \<Rightarrow> real list \<Rightarrow> real list \<Rightarrow> real list \<Rightarrow> real list \<Rightarrow> weights
     \<Rightarrow> error + fl \<times> fl \<times> fl" where
  "twiss_parameters_corrected_spec pf2 x px py pz w =
     (case remove_dispersion x px py pz w of
        Inl e \<Rightarrow> Inl e
      | Inr (x', px') \<Rightarrow> fst (twiss_parameters pf2 x' px' pz None w ''tr'' False))"

section \<open>Current profile\<close>

text \<open>
  \<open>np.max(z)\<close> and \<open>np.min(z)\<close>: ValueError on an empty array.
\<close>

definition np_max :: "real list \<Rightarrow> error + real" where
  "np_max z = (case z of [] \<Rightarrow> Inl ValueError | v # vs \<Rightarrow> Inr (fold max vs v))"

definition np_min :: "real list \<Rightarrow> error + real" where
  "np_min z = (case z of [] \<Rightarrow> Inl ValueError | v # vs \<Rightarrow> Inr (fold min vs v))"

text \<open>
  \<open>np.linspace(start, stop, num)\<close>: \<open>num\<close> evenly spaced numbers, the first \<open>start\<close> and,
  from two numbers on, the last \<open>stop\<close>.
\<close>

definition edge :: "real \<Rightarrow> real \<Rightarrow> nat \<Rightarrow> nat \<Rightarrow> real" where
  "edge start stop n i = start + real i * ((stop - start) / real n)"

definition np_linspace :: "real \<Rightarrow> real \<Rightarrow> nat \<Rightarrow> real list" where
  "np_linspace start stop num = map (edge start stop (num - 1)) [0..<num]"

text \<open>
  \<open>np.histogram(a, bins=n, weights=wts)\<close> with an integer \<open>n\<close>: ValueError when the weights
  have another shape than \<open>a\<close> or \<open>n\<close> is not positive. The range is from the minimum to the
  maximum of \<open>a\<close> (0 to 1 for an empty \<open>a\<close>), widened by 0.5 on each side when the two are
  equal; the edges are \<open>n + 1\<close> evenly spaced numbers over the range. Every bin holds the
  values \<open>v\<close> with \<open>lo \<le> v < hi\<close>, and the last bin also holds \<open>v = hi\<close>. The histogram is the
  sum of the weights of the values of each bin.
\<close>

definition in_bin :: "real \<Rightarrow> real \<Rightarrow> bool \<Rightarrow> real \<Rightarrow> bool" where
  "in_bin lo hi last_bin v = (lo \<le> v \<and> (v < hi \<or> last_bin \<and> v \<le> hi))"

definition bin_sum :: "real list \<Rightarrow> real list \<Rightarrow> real \<Rightarrow> real \<Rightarrow> bool \<Rightarrow> real" where
  "bin_sum a wts lo hi last_bin =
     sum_list (map snd (filter (\<lambda>(v, c). in_bin lo hi last_bin v) (zip a wts)))"

definition histogram_range :: "real list \<Rightarrow> real \<times> real" where
  "histogram_range a =
     (case a of
        [] \<Rightarrow> (0, 1)
      | v # vs \<Rightarrow>
          (let first_edge = fold min vs v; last_edge = fold max vs v
           in if first_edge = last_edge then (first_edge - 1 / 2, last_edge + 1 / 2)
              else (first_edge, last_edge)))"

definition np_histogram :: "real list \<Rightarrow> int \<Rightarrow> real list \<Rightarrow> error + real list \<times> real list" where
  "np_histogram a bins wts =
     (if length wts \<noteq> length a then Inl ValueError
      else if bins < 1 then Inl ValueError
      else (case histogram_range a of
              (first_edge, last_edge) \<Rightarrow>
                (let n = nat bins;
                     bin_edges = np_linspace first_edge last_edge (n + 1)
                 in Inr (map (\<lambda>i. bin_sum a wts (bin_edges ! i) (bin_edges ! (i + 1)) (i + 1 = n))
                           [0..<n],
                         bin_edges))))"

text \<open>\<open>scipy.constants.c\<close>, the speed of light in m/s.\<close>

definition ct_c :: real where
  "ct_c = 299792458"

text \<open>
  Lines 670 and 671 of \<open>current_profile\<close>:
  \<open>if len_slice is not None: n_slices = int((max_z-min_z)/len_slice)\<close>. The quotient of
  numpy floats by zero is an infinity or NaN, on which \<open>int\<close> raises OverflowError or
  ValueError; \<open>int\<close> rounds towards zero.
\<close>

definition py_int :: "real \<Rightarrow> int" where
  "py_int r = (if 0 \<le> r then \<lfloor>r\<rfloor> else \<lceil>r\<rceil>)"

definition slice_count :: "real \<Rightarrow> real \<Rightarrow> int \<Rightarrow> real option \<Rightarrow> error + int" where
  "slice_count max_z min_z n_slices len_slice =
     (case len_slice of
        None \<Rightarrow> Inr n_slices
      | Some l \<Rightarrow>
          if l = 0 then (if max_z - min_z = 0 then Inl ValueError else Inl OverflowError)
          else Inr (py_int ((max_z - min_z) / l)))"

definition current_profile ::
  "real list \<Rightarrow> real list \<Rightarrow> int \<Rightarrow> real option \<Rightarrow> error + fl list \<times> real list" where
  "current_profile z q n_slices len_slice =
     (case np_max z of
        Inl e \<Rightarrow> Inl e
      | Inr max_z \<Rightarrow>
          (case np_min z of
             Inl e \<Rightarrow> Inl e
           | Inr min_z \<Rightarrow>
               (case slice_count max_z min_z n_slices len_slice of
                  Inl e \<Rightarrow> Inl e
                | Inr n \<Rightarrow>
                    (let adj_slice_len = fdiv (max_z - min_z) (of_int n)
                     in case np_histogram z n q of
                          Inl e \<Rightarrow> Inl e
                        | Inr (charge_hist, z_edges) \<Rightarrow>
                            (let sl_dur = map_option (\<lambda>l. l / ct_c) adj_slice_len;
                                 current_prof = map (\<lambda>h. Option.bind sl_dur (fdiv h)) charge_hist
                             in Inr (current_prof, z_edges))))))"

section \<open>Slices\<close>

text \<open>
  Modelled from the spec: \<open>create_beam_slices(z, n_slices, len_slice)\<close> of
  \<open>aptools.helper_functions\<close>, which is not among the sources. The spec has it as
  \<open>computeSliceEdges\<close>: "if sliceLength is given, nSlices = floor((max(z)-min(z)) /
  sliceLength); otherwise uses nSlices directly. Edges are nSlices+1 uniformly spaced values
  from min(z) to max(z)." It returns the edges and the number of slices. An empty \<open>z\<close> is a
  DegenerateInputError and a slice length of zero a ZeroDivisionError.
\<close>

definition create_beam_slices :: "real list \<Rightarrow> int \<Rightarrow> real option \<Rightarrow> error + real list \<times> int" where
  "create_beam_slices z n_slices len_slice =
     (case (np_max z, np_min z) of
        (Inr max_z, Inr min_z) \<Rightarrow>
          (case (case len_slice of
                   None \<Rightarrow> Inr n_slices
                 | Some l \<Rightarrow> if l = 0 then Inl ZeroDivisionError
                             else Inr \<lfloor>(max_z - min_z) / l\<rfloor>) of
             Inl e \<Rightarrow> Inl e
           | Inr n \<Rightarrow> Inr (np_linspace min_z max_z (nat (n + 1)), n))
      | _ \<Rightarrow> Inl DegenerateInputError)"

text \<open>\<open>(z > a) & (z <= b)\<close> for one particle.\<close>

definition in_slice :: "real \<Rightarrow> real \<Rightarrow> real \<Rightarrow> bool" where
  "in_slice a b v = (a < v \<and> v \<le> b)"

text \<open>\<open>arr[mask]\<close>: the entries of an array where the boolean mask is true.\<close>

definition select :: "bool list \<Rightarrow> 'a list \<Rightarrow> 'a list" where
  "select flt arr = map snd (filter fst (zip flt arr))"

text \<open>\<open>w[slice_particle_filter]\<close> if \<open>w\<close> has \<open>__iter__\<close>, else \<open>w\<close>.\<close>

definition select_weights :: "bool list \<Rightarrow> weights \<Rightarrow> weights" where
  "select_weights flt w = (case w of Scalar s \<Rightarrow> Scalar s | Array ws \<Rightarrow> Array (select flt ws))"

text \<open>\<open>np.sum(w_slice)\<close>: the sum of an array, and the number itself for one number.\<close>

definition np_sum :: "weights \<Rightarrow> real" where
  "np_sum w = (case w of Scalar s \<Rightarrow> s | Array ws \<Rightarrow> sum_list ws)"

text \<open>
  The loop \<open>for i in np.arange(0, n_slices)\<close> that fills the two arrays of zeros: each
  slice gives its pair of entries, and an exception in one slice ends the call.
\<close>

fun slice_loop :: "(nat \<Rightarrow> error + 'a) \<Rightarrow> nat list \<Rightarrow> error + 'a list" where
  "slice_loop f [] = Inr []"
| "slice_loop f (i # js) =
     (case f i of
        Inl e \<Rightarrow> Inl e
      | Inr r \<Rightarrow> (case slice_loop f js of Inl e \<Rightarrow> Inl e | Inr rs \<Rightarrow> Inr (r # rs)))"

text \<open>The body of the loop of \<open>relative_rms_slice_energy_spread\<close>, lines 563 to 577.\<close>

definition energy_spread_of_slice ::
  "real list \<Rightarrow> real list \<Rightarrow> real list \<Rightarrow> real list \<Rightarrow> weights \<Rightarrow> real list \<Rightarrow> nat
     \<Rightarrow> error + fl \<times> real" where
  "energy_spread_of_slice z px py pz w slice_lims i =
     (let a = slice_lims ! i;
          b = slice_lims ! (i + 1);
          slice_particle_filter = map (in_slice a b) z
      in if list_ex id slice_particle_filter then
           (let px_slice = select slice_particle_filter px;
                py_slice = select slice_particle_filter py;
                pz_slice = select slice_particle_filter pz;
                w_slice = select_weights slice_particle_filter w
            in case relative_rms_energy_spread px_slice py_slice pz_slice w_slice of
                 Inl e \<Rightarrow> Inl e
               | Inr spread \<Rightarrow> Inr (spread, np_sum w_slice))
         else Inr (Some 0, 0))"

text \<open>\<open>np.zeros(n_slices)\<close> raises ValueError for a negative number of slices.\<close>

definition relative_rms_slice_energy_spread ::
  "real list \<Rightarrow> real list \<Rightarrow> real list \<Rightarrow> real list \<Rightarrow> weights \<Rightarrow> int \<Rightarrow> real option
     \<Rightarrow> error + fl list \<times> real list \<times> real list" where
  "relative_rms_slice_energy_spread z px py pz w n_slices len_slice =
     (case create_beam_slices z n_slices len_slice of
        Inl e \<Rightarrow> Inl e
      | Inr (slice_lims, n) \<Rightarrow>
          if n < 0 then Inl ValueError
          else (case slice_loop (energy_spread_of_slice z px py pz w slice_lims) [0..<nat n] of
                  Inl e \<Rightarrow> Inl e
                | Inr rs \<Rightarrow> Inr (map fst rs, map snd rs, slice_lims)))"

text \<open>
  The body of the loop of \<open>normalized_transverse_rms_slice_emittance\<close>, lines 624 to 644.
\<close>

definition emittance_of_slice ::
  "polyfit2 \<Rightarrow> real list \<Rightarrow> real list \<Rightarrow> real list \<Rightarrow> real list option \<Rightarrow> real list option
     \<Rightarrow> weights \<Rightarrow> bool \<Rightarrow> real list \<Rightarrow> nat \<Rightarrow> error + fl \<times> real" where
  "emittance_of_slice pf2 z x px py pz w disp_corrected slice_lims i =
     (let a = slice_lims ! i;
          b = slice_lims ! (i + 1);
          slice_particle_filter = map (in_slice a b) z
      in if list_ex id slice_particle_filter then
           (let x_slice = select slice_particle_filter x;
                px_slice = select slice_particle_filter px;
                py_slice = map_option (select slice_particle_filter) py;
                pz_slice = map_option (select slice_particle_filter) pz;
                w_slice = select_weights slice_particle_filter w
            in case normalized_transverse_rms_emittance pf2 x_slice px_slice py_slice pz_slice
                      w_slice disp_corrected of
                 Inl e \<Rightarrow> Inl e
               | Inr em \<Rightarrow> Inr (em, np_sum w_slice))
         else Inr (Some 0, 0))"

definition normalized_transverse_rms_slice_emittance ::
  "polyfit2 \<Rightarrow> real list \<Rightarrow> real list \<Rightarrow> real list \<Rightarrow> real list option \<Rightarrow> real list option
     \<Rightarrow> weights \<Rightarrow> bool \<Rightarrow> int \<Rightarrow> real option \<Rightarrow> error + fl list \<times> real list \<times> real list" where
  "normalized_transverse_rms_slice_emittance pf2 z x px py pz w disp_corrected n_slices len_slice =
     (case create_beam_slices z n_slices len_slice of
        Inl e \<Rightarrow> Inl e
      | Inr (slice_lims, n) \<Rightarrow>
          if n < 0 then Inl ValueError
          else (case slice_loop (emittance_of_slice pf2 z x px py pz w disp_corrected slice_lims)
                       [0..<nat n] of
                  Inl e \<Rightarrow> Inl e
                | Inr rs \<Rightarrow> Inr (map fst rs, map snd rs, slice_lims)))"

text \<open>
  The weight of the particles of \<open>z\<close> that satisfy \<open>P\<close>: the sum of their entries of a
  weight array, and with one number \<open>s\<close> for every particle, \<open>s\<close> times their count.
\<close>

definition weight_where :: "(real \<Rightarrow> bool) \<Rightarrow> real list \<Rightarrow> weights \<Rightarrow> real" where
  "weight_where P z w =
     (case w of
        Scalar s \<Rightarrow> s * real (length (filter P z))
      | Array ws \<Rightarrow> sum_list (map snd (filter (\<lambda>(v, c). P v) (zip z ws))))"

text \<open>
  An ensemble of four particles with the weights 1, 1, 4, 4, in which neither \<open>x\<close> nor
  \<open>xp = px/pz\<close> is correlated with the momentum; positions that rise with the momentum,
  equal momenta \<open>px\<close> and equal weights, for the same \<open>py\<close> and \<open>pz\<close>.
\<close>

definition ens_x :: "real list" where
  "ens_x = [1, -1, 1, -1]"

definition ens_px :: "real list" where
  "ens_px = [3, -3, 3, -3]"

definition ens_py :: "real list" where
  "ens_py = [0, 0, 4, 4]"

definition ens_pz :: "real list" where
  "ens_pz = [4, 4, 12, 12]"

definition ens_w :: "real list" where
  "ens_w = [1, 1, 4, 4]"




text \<open>The example of the current profile: ten particles of 1 pC at \<open>z = 0, 1, ..., 9\<close>.\<close>

definition example_z :: "real list" where
  "example_z = [0, 1, 2, 3, 4, 5, 6, 7, 8, 9]"

definition example_q :: "real list" where
  "example_q = replicate 10 (1 / 10 ^ 12)"

section \<open>Properties of the energies\<close>

lemma sqrt_25: "sqrt 25 = 5"
  by (rule real_sqrt_unique) simp_all

lemma sqrt_4: "sqrt 4 = 2"
  by (rule real_sqrt_unique) simp_all

lemma momentum_nonneg: "v \<in> set (momentum px py pz) \<Longrightarrow> 0 \<le> v"
  by (auto simp: momentum_def)

lemma sum_list_map2_abs_nonneg:
  "(\<And>v. v \<in> set a \<Longrightarrow> 0 \<le> v) \<Longrightarrow> 0 \<le> sum_list (map2 (*) a (map abs ws))"
  for a :: "real list"
proof (induction a arbitrary: ws)
  case Nil
  then show ?case by simp
next
  case (Cons v a)
  show ?case
  proof (cases ws)
    case Nil
    then show ?thesis by simp
  next
    case (Cons c cs)
    have "0 \<le> v * \<bar>c\<bar>" using Cons.prems by simp
    moreover have "0 \<le> sum_list (map2 (*) a (map abs cs))"
      using Cons.IH Cons.prems by simp
    ultimately show ?thesis using Cons by simp
  qed
qed

lemma sum_list_abs_nonneg: "0 \<le> sum_list (map abs ws)" for ws :: "real list"
  by (induction ws) auto

lemma sum_list_le_abs: "sum_list ws \<le> sum_list (map abs ws)" for ws :: "real list"
  by (induction ws) auto

lemma mean_kinetic_energy_nonneg:
  assumes "mean_kinetic_energy px py pz w = Inr k"
  shows "0 \<le> k"
proof -
  from assms obtain ws where k: "k = wmean (momentum px py pz) (map abs ws)"
    by (auto simp: mean_kinetic_energy_def np_average_def avg_weights_def np_abs_def
        split: weights.splits if_splits)
  have "0 \<le> sum_list (map2 (*) (momentum px py pz) (map abs ws))"
    by (rule sum_list_map2_abs_nonneg) (rule momentum_nonneg)
  then show ?thesis
    unfolding k wmean_def using sum_list_abs_nonneg [of ws] by simp
qed

text \<open>
  On every input \<open>mean_energy\<close> raises what \<open>mean_kinetic_energy\<close> raises and otherwise adds
  1: the mean of non-negative numbers with the weights \<open>|w|\<close> is non-negative, so the
  square root of its square gives it back.
\<close>

lemma mean_energy_eq:
  "mean_energy px py pz w = map_sum id (\<lambda>k. 1 + k) (mean_kinetic_energy px py pz w)"
proof (cases "mean_kinetic_energy px py pz w")
  case (Inl e)
  then show ?thesis by (simp add: mean_energy_def)
next
  case (Inr k)
  then have "0 \<le> k" by (rule mean_kinetic_energy_nonneg)
  then have "sqrt (k * k) = k" by (simp add: real_sqrt_mult)
  with Inr show ?thesis by (simp add: mean_energy_def)
qed

text \<open>
  C8. For momenta and a weight array of one length whose weights have a positive sum,
  \<open>mean_kinetic_energy\<close> returns the mean of \<open>sqrt(px\<^sup>2+py\<^sup>2+pz\<^sup>2)\<close> with the weights \<open>|w|\<close>, and
  \<open>mean_energy\<close> returns 1 plus that number.
\<close>

theorem mean_energy_adds_rest_energy:
  assumes "length px = length ws" and "length py = length ws" and "length pz = length ws"
    and "0 < sum_list ws"
  shows "mean_kinetic_energy px py pz (Array ws) = Inr (wmean (momentum px py pz) (map abs ws))
    \<and> mean_energy px py pz (Array ws) = Inr (1 + wmean (momentum px py pz) (map abs ws))"
proof -
  from assms(4) have pos: "sum_list (map abs ws) \<noteq> 0"
    using sum_list_le_abs [of ws] by simp
  have len: "length (momentum px py pz) = length ws"
    using assms(1-3) by (simp add: momentum_def)
  have "mean_kinetic_energy px py pz (Array ws) = Inr (wmean (momentum px py pz) (map abs ws))"
    using pos len by (simp add: mean_kinetic_energy_def np_average_def avg_weights_def np_abs_def)
  then show ?thesis by (simp add: mean_energy_eq)
qed

theorem mean_energy_adds_rest_energy_witness:
  "mean_kinetic_energy [0, 0] [0, 0] [1, 1] (Array [1, 3]) = Inr 1
   \<and> mean_energy [0, 0] [0, 0] [1, 1] (Array [1, 3]) = Inr 2"
  using mean_energy_adds_rest_energy [of "[0, 0]" "[1, 3]" "[0, 0]" "[1, 1]"]
  by (simp add: momentum_def wmean_def)

section \<open>Properties of the emittances\<close>

text \<open>
  C5. With fewer than two particles (\<open>len(x) < 2\<close>) the phase-space emittance
  \<open>normalized_transverse_rms_emittance\<close> and the trace-space emittance
  \<open>transverse_trace_space_rms_emittance\<close> both return 0 and raise nothing, whatever the
  other arrays, the weights and the flag \<open>disp_corrected\<close> are.
\<close>

theorem emittance_of_fewer_than_two:
  assumes "length x < 2"
  shows "normalized_transverse_rms_emittance pf2 x px py pz w disp_corrected = Inr (Some 0)
    \<and> transverse_trace_space_rms_emittance x px py pz w disp_corrected = Inr (Some 0)"
  using assms
  by (simp add: normalized_transverse_rms_emittance_def transverse_trace_space_rms_emittance_def)

theorem emittance_of_fewer_than_two_witness:
  "normalized_transverse_rms_emittance (\<lambda>a b c. Inl LinAlgError) [1] [2] None None (Scalar 1) True
     = Inr (Some 0)
   \<and> transverse_trace_space_rms_emittance [1] [2] None None (Scalar 1) True = Inr (Some 0)"
  using emittance_of_fewer_than_two
    [of "[1]" "\<lambda>a b c. Inl LinAlgError" "[2]" None None "Scalar 1" True]
  by simp

lemma momentum_example:
  "momentum [0, 0, 3, -3] [0, 0, 0, 0] [5, 5, 4, 4] = [5, 5, 5, 5]"
  by (simp add: momentum_def sqrt_25)

lemma gamma_avg_example:
  "np_average (momentum [0, 0, 3, -3] [0, 0, 0, 0] [5, 5, 4, 4]) (Array [1, 1, 1, 1]) = Inr 5"
  by (simp add: momentum_example np_average_def avg_weights_def wmean_def)

lemma emittance_example:
  "normalized_transverse_rms_emittance pf2 [1, -1, 0, 0] [0, 0, 3, -3] (Some [0, 0, 0, 0])
     (Some [5, 5, 4, 4]) (Array [1, 1, 1, 1]) False = Inr (Some 2)"
  by (simp add: normalized_transverse_rms_emittance_def np_cov_def cov_weights_def np_abs_def
      cov_matrix_def cov_entry_def wmean_def sqrt_det_def np_linalg_det_def fsqrt_def sqrt_4)

text \<open>
  C4. Where the weighted mean \<open>gamma_avg\<close> of \<open>sqrt(px\<^sup>2+py\<^sup>2+pz\<^sup>2)\<close> exists and is not zero and
  the phase-space emittance \<open>normalized_transverse_rms_emittance\<close> returns a finite number,
  \<open>geometric_transverse_rms_emittance\<close> returns a finite number too, and that number times
  \<open>gamma_avg\<close> is the phase-space emittance.
\<close>

theorem geometric_emittance_round_trip:
  assumes "np_average (momentum px py pz) w = Inr gamma_avg"
    and "gamma_avg \<noteq> 0"
    and "normalized_transverse_rms_emittance pf2 x px (Some py) (Some pz) w disp_corrected
           = Inr (Some em)"
  shows "\<exists>g. geometric_transverse_rms_emittance pf2 x px py pz w disp_corrected = Inr (Some g)
    \<and> g * gamma_avg = em"
  using assms by (simp add: geometric_transverse_rms_emittance_def fdiv_def)

theorem geometric_emittance_round_trip_witness:
  "\<exists>g. geometric_transverse_rms_emittance (\<lambda>a b c. Inl LinAlgError) [1, -1, 0, 0] [0, 0, 3, -3]
          [0, 0, 0, 0] [5, 5, 4, 4] (Array [1, 1, 1, 1]) False = Inr (Some g)
     \<and> g * 5 = 2"
  using geometric_emittance_round_trip [OF gamma_avg_example _ emittance_example] by simp

section \<open>Properties of the current profile\<close>

lemma bin_sum_split:
  assumes "lo \<le> mid" and "mid \<le> hi"
  shows "bin_sum a wts lo mid False + bin_sum a wts mid hi c = bin_sum a wts lo hi c"
proof -
  have "sum_list (map snd (filter (\<lambda>(v, c). in_bin lo mid False v) ps))
      + sum_list (map snd (filter (\<lambda>(v, c'). in_bin mid hi c v) ps))
      = sum_list (map snd (filter (\<lambda>(v, c'). in_bin lo hi c v) ps))" for ps :: "(real \<times> real) list"
    using assms by (induction ps) (auto simp: in_bin_def)
  then show ?thesis by (simp add: bin_sum_def)
qed

lemma bin_sum_chain:
  assumes "\<And>i. i < k \<Longrightarrow> e i \<le> e (Suc i)"
  shows "e 0 \<le> e k \<and>
    sum_list (map (\<lambda>i. bin_sum a wts (e i) (e (Suc i)) False) [0..<k]) = bin_sum a wts (e 0) (e k) False"
  using assms
proof (induction k)
  case 0
  have "filter (\<lambda>(v, c). in_bin (e 0) (e 0) False v) ps = []" for ps :: "(real \<times> real) list"
    by (induction ps) (auto simp: in_bin_def)
  then show ?case by (simp add: bin_sum_def)
next
  case (Suc k)
  then have IH: "e 0 \<le> e k"
    "sum_list (map (\<lambda>i. bin_sum a wts (e i) (e (Suc i)) False) [0..<k]) = bin_sum a wts (e 0) (e k) False"
    by simp_all
  have step: "e k \<le> e (Suc k)" using Suc.prems by simp
  show ?case using IH step bin_sum_split [OF IH(1) step, of a wts False] by simp
qed

lemma bin_sum_all:
  assumes "length wts = length a" and "\<And>v. v \<in> set a \<Longrightarrow> lo \<le> v \<and> v \<le> hi"
  shows "bin_sum a wts lo hi True = sum_list wts"
proof -
  have "filter (\<lambda>(v, c). in_bin lo hi True v) (zip a wts) = zip a wts"
    using assms(2) by (auto simp: filter_id_conv in_bin_def dest: set_zip_leftD)
  then show ?thesis using assms(1) by (simp add: bin_sum_def)
qed

lemma histogram_total:
  assumes "length wts = length a" and "0 < n" and "lo \<le> hi"
    and "\<And>v. v \<in> set a \<Longrightarrow> lo \<le> v \<and> v \<le> hi"
  shows "sum_list (map (\<lambda>i. bin_sum a wts (edge lo hi n i) (edge lo hi n (Suc i)) (Suc i = n)) [0..<n])
    = sum_list wts"
proof -
  obtain m where n: "n = Suc m" using assms(2) by (cases n) auto
  let ?e = "edge lo hi n"
  have mono: "?e i \<le> ?e (Suc i)" for i
  proof -
    have "0 \<le> (hi - lo) / real n" using assms(3) by simp
    moreover have "?e (Suc i) = ?e i + (hi - lo) / real n"
      by (simp add: edge_def distrib_right add_divide_distrib)
    ultimately show ?thesis by simp
  qed
  have e0: "?e 0 = lo" by (simp add: edge_def)
  have en: "?e n = hi" using assms(2) by (simp add: edge_def)
  have chain: "?e 0 \<le> ?e m"
    "sum_list (map (\<lambda>i. bin_sum a wts (?e i) (?e (Suc i)) False) [0..<m]) = bin_sum a wts (?e 0) (?e m) False"
    using bin_sum_chain [of m ?e a wts] mono by simp_all
  have flag: "map (\<lambda>i. bin_sum a wts (?e i) (?e (Suc i)) (Suc i = n)) [0..<m]
      = map (\<lambda>i. bin_sum a wts (?e i) (?e (Suc i)) False) [0..<m]"
    using n by simp
  have "sum_list (map (\<lambda>i. bin_sum a wts (?e i) (?e (Suc i)) (Suc i = n)) [0..<n])
      = sum_list (map (\<lambda>i. bin_sum a wts (?e i) (?e (Suc i)) (Suc i = n)) [0..<m])
        + bin_sum a wts (?e m) (?e (Suc m)) True"
    unfolding n by simp
  also have "\<dots> = bin_sum a wts (?e 0) (?e m) False + bin_sum a wts (?e m) (?e (Suc m)) True"
    by (simp only: flag chain(2))
  also have "\<dots> = bin_sum a wts (?e 0) (?e (Suc m)) True"
    by (rule bin_sum_split [OF chain(1) mono])
  also have "\<dots> = sum_list wts"
    using bin_sum_all [OF assms(1), of lo hi] assms(4) e0 en n by simp
  finally show ?thesis .
qed

lemma np_min_le: "np_min z = Inr lo \<Longrightarrow> v \<in> set z \<Longrightarrow> lo \<le> v"
  by (cases z) (auto simp: np_min_def Min.set_eq_fold [symmetric])

lemma np_max_ge: "np_max z = Inr hi \<Longrightarrow> v \<in> set z \<Longrightarrow> v \<le> hi"
  by (cases z) (auto simp: np_max_def Max.set_eq_fold [symmetric])

lemma histogram_range_eq:
  "np_min z = Inr lo \<Longrightarrow> np_max z = Inr hi \<Longrightarrow> lo < hi \<Longrightarrow> histogram_range z = (lo, hi)"
  by (cases z) (auto simp: np_min_def np_max_def histogram_range_def Let_def)

lemma linspace_nth: "i \<le> n \<Longrightarrow> np_linspace a b (Suc n) ! i = edge a b n i"
  by (simp add: np_linspace_def del: upt_Suc)

lemma np_histogram_total:
  assumes "np_min z = Inr lo" and "np_max z = Inr hi" and "lo < hi"
    and "length q = length z" and "1 \<le> n"
  shows "\<exists>hist edges. np_histogram z n q = Inr (hist, edges) \<and> sum_list hist = sum_list q
     \<and> length edges = nat n + 1"
proof -
  let ?k = "nat n"
  have k: "0 < ?k" using assms(5) by simp
  have eq: "map (\<lambda>i. bin_sum z q (np_linspace lo hi (Suc ?k) ! i) (np_linspace lo hi (Suc ?k) ! Suc i) (Suc i = ?k)) [0..<?k]
    = map (\<lambda>i. bin_sum z q (edge lo hi ?k i) (edge lo hi ?k (Suc i)) (Suc i = ?k)) [0..<?k]"
    by (rule map_cong) (simp_all add: linspace_nth)
  have len: "length (np_linspace lo hi (Suc ?k)) = Suc ?k"
    by (simp add: np_linspace_def)
  have "sum_list (map (\<lambda>i. bin_sum z q (edge lo hi ?k i) (edge lo hi ?k (Suc i)) (Suc i = ?k)) [0..<?k]) = sum_list q"
    using histogram_total [OF assms(4) k, of lo hi] assms(1-3) np_min_le np_max_ge by fastforce
  then have tot: "sum_list (map (\<lambda>i. bin_sum z q (np_linspace lo hi (Suc ?k) ! i) (np_linspace lo hi (Suc ?k) ! Suc i) (Suc i = ?k)) [0..<?k]) = sum_list q"
    by (simp only: eq)
  have "np_histogram z n q = Inr (map (\<lambda>i. bin_sum z q (np_linspace lo hi (Suc ?k) ! i) (np_linspace lo hi (Suc ?k) ! Suc i) (Suc i = ?k)) [0..<?k], np_linspace lo hi (Suc ?k))"
    using assms(4,5) histogram_range_eq [OF assms(1-3)]
    by (simp add: np_histogram_def Let_def)
  with tot len show ?thesis by simp
qed

text \<open>
  C3 as amended. For \<open>z\<close> and \<open>q\<close> of one length with \<open>min(z) < max(z)\<close> and at least one
  slice (\<open>n_slices\<close>, or the number computed from \<open>len_slice\<close>), \<open>current_profile\<close> returns a
  finite current for every bin, and the sum of \<open>current[i] * sl_dur\<close> with
  \<open>sl_dur = ((max(z) - min(z)) / n) / c\<close> is the total charge \<open>sum(q)\<close>.
\<close>

theorem current_profile_total_charge:
  assumes "np_min z = Inr min_z" and "np_max z = Inr max_z" and "min_z < max_z"
    and "length q = length z"
    and "slice_count max_z min_z n_slices len_slice = Inr n" and "1 \<le> n"
  shows "\<exists>cur edges. current_profile z q n_slices len_slice = Inr (map Some cur, edges)
    \<and> sum_list (map (\<lambda>i. i * ((max_z - min_z) / of_int n / ct_c)) cur) = sum_list q"
proof -
  from np_histogram_total [OF assms(1-4,6)] obtain hist edges
    where h: "np_histogram z n q = Inr (hist, edges)" and tot: "sum_list hist = sum_list q"
    by blast
  let ?d = "(max_z - min_z) / of_int n / ct_c"
  have d: "?d \<noteq> 0" using assms(3,6) by (simp add: ct_c_def)
  have n0: "(of_int n :: real) \<noteq> 0" using assms(6) by simp
  have cp: "current_profile z q n_slices len_slice = Inr (map Some (map (\<lambda>h. h / ?d) hist), edges)"
    using assms(1,2,5) h d n0 by (simp add: current_profile_def fdiv_def Let_def comp_def)
  have "sum_list (map (\<lambda>i. i * ?d) (map (\<lambda>h. h / ?d) hist)) = sum_list hist"
    using d by (simp add: comp_def)
  with cp tot show ?thesis by metis
qed

theorem current_profile_total_charge_witness:
  "\<exists>cur edges. current_profile [0, 1, 3] [2, 3, 4] 2 None = Inr (map Some cur, edges)
    \<and> sum_list (map (\<lambda>i. i * ((3 - 0) / of_int 2 / ct_c)) cur) = sum_list [2, 3, 4]"
  using current_profile_total_charge [of "[0, 1, 3]" 0 3 "[2, 3, 4]" 2 None 2]
  by (simp add: np_min_def np_max_def slice_count_def)

text \<open>
  C3 as stated fails for a bunch of no length. One particle at \<open>z = 0\<close> with charge 1 and one
  slice: the slice length and with it \<open>sl_dur\<close> is 0, the histogram has the range from -0.5
  to 0.5, and the charge divided by \<open>sl_dur\<close> is not a finite current.
\<close>

theorem current_profile_total_charge_counterexample:
  "current_profile [0] [1] 1 None = Inr ([None], [- 1 / 2, 1 / 2])"
  by (simp add: current_profile_def np_max_def np_min_def slice_count_def fdiv_def
      np_histogram_def histogram_range_def np_linspace_def edge_def bin_sum_def in_bin_def)

lemma example_extremes: "np_max example_z = Inr 9" "np_min example_z = Inr 0"
  by (simp_all add: example_z_def np_max_def np_min_def)

lemma example_histogram:
  "np_histogram example_z 2 example_q = Inr ([5 / 10 ^ 12, 5 / 10 ^ 12], [0, 9 / 2, 9])"
  by (simp add: example_z_def example_q_def np_histogram_def histogram_range_def np_linspace_def
      edge_def bin_sum_def in_bin_def numeral_eq_Suc)

text \<open>
  C2 as amended. For \<open>z = [0, ..., 9]\<close>, \<open>q = [1e-12]*10\<close> and two slices, \<open>current_profile\<close>
  returns the edges \<open>[0, 4.5, 9]\<close>; the first bin holds the five particles with \<open>z\<close> from 0
  to 4, the global minimum \<open>z = 0\<close> among them, the second the five particles with \<open>z\<close> from
  5 to 9; each current is \<open>5e-12 / (4.5 / c)\<close>, and the charge over both bins is the whole
  \<open>sum(q) = 1e-11\<close>.
\<close>

theorem current_profile_example:
  "current_profile example_z example_q 2 None
     = Inr ([Some (5 / 10 ^ 12 / (9 / 2 / ct_c)), Some (5 / 10 ^ 12 / (9 / 2 / ct_c))], [0, 9 / 2, 9])
   \<and> filter (in_bin 0 (9 / 2) False) example_z = [0, 1, 2, 3, 4]
   \<and> filter (in_bin (9 / 2) 9 True) example_z = [5, 6, 7, 8, 9]
   \<and> 5 / 10 ^ 12 / (9 / 2 / ct_c) * (9 / 2 / ct_c) + 5 / 10 ^ 12 / (9 / 2 / ct_c) * (9 / 2 / ct_c)
       = sum_list example_q"
proof -
  have "current_profile example_z example_q 2 None
     = Inr ([Some (5 / 10 ^ 12 / (9 / 2 / ct_c)), Some (5 / 10 ^ 12 / (9 / 2 / ct_c))], [0, 9 / 2, 9])"
    by (simp add: current_profile_def example_extremes example_histogram slice_count_def
        fdiv_def ct_c_def)
  moreover have "filter (in_bin 0 (9 / 2) False) example_z = [0, 1, 2, 3, 4]"
    by (simp add: example_z_def in_bin_def)
  moreover have "filter (in_bin (9 / 2) 9 True) example_z = [5, 6, 7, 8, 9]"
    by (simp add: example_z_def in_bin_def)
  moreover have "5 / 10 ^ 12 / (9 / 2 / ct_c) * (9 / 2 / ct_c)
      + 5 / 10 ^ 12 / (9 / 2 / ct_c) * (9 / 2 / ct_c) = sum_list example_q"
    by (simp add: example_q_def ct_c_def numeral_eq_Suc)
  ultimately show ?thesis by simp
qed

text \<open>
  C2 as stated: four particles in the first bin and five in the second would give the
  currents \<open>4e-12 / (4.5 / c)\<close> and \<open>5e-12 / (4.5 / c)\<close>. That is not what the function returns.
\<close>

theorem current_profile_example_counterexample:
  "current_profile example_z example_q 2 None
     \<noteq> Inr ([Some (4 / 10 ^ 12 / (9 / 2 / ct_c)), Some (5 / 10 ^ 12 / (9 / 2 / ct_c))], [0, 9 / 2, 9])"
  by (simp add: current_profile_def example_extremes example_histogram slice_count_def
      fdiv_def ct_c_def)

section \<open>Properties of the chirp and of the correlated energy spread\<close>

lemma those_map_Some: "those (map Some xs) = Some xs"
  by (induction xs) auto

lemma sum_list_map2_scale:
  "sum_list (map2 (*) (map (\<lambda>v. k * f v) z) ws) = k * sum_list (map2 (*) (map f z) ws)"
  for k :: real
proof (induction z arbitrary: ws)
  case Nil
  then show ?case by simp
next
  case (Cons v z)
  then show ?case by (cases ws) (simp_all add: algebra_simps)
qed

lemma sum_list_map2_shift:
  fixes c :: real
  assumes "length z = length ws"
  shows "sum_list (map2 (*) (map (\<lambda>v. v - c) z) ws) = sum_list (map2 (*) z ws) - c * sum_list ws"
  using assms by (induction z ws rule: list_induct2) (simp_all add: algebra_simps)

lemma wmean_centered:
  assumes "length z = length ws" and "sum_list ws \<noteq> 0"
  shows "wmean (map (\<lambda>v. k * (v - wmean z ws)) z) ws = 0"
proof -
  have "sum_list (map2 (*) (map (\<lambda>v. v - wmean z ws) z) ws) = 0"
    using assms by (simp add: sum_list_map2_shift wmean_def)
  then show ?thesis
    using sum_list_map2_scale [of k "\<lambda>v. v - wmean z ws" z ws] by (simp add: wmean_def)
qed

lemma wvariance_scaled:
  assumes "length z = length ws" and "sum_list ws \<noteq> 0"
  shows "wvariance (map (\<lambda>v. k * (v - wmean z ws)) z) ws = k * k * wvariance z ws"
proof -
  let ?v = "map (\<lambda>v. k * (v - wmean z ws)) z"
  have m0: "wmean ?v ws = 0" by (rule wmean_centered [OF assms])
  have "map (\<lambda>a. (a - wmean ?v ws) * (a - wmean ?v ws)) ?v
      = map (\<lambda>v. k * k * ((v - wmean z ws) * (v - wmean z ws))) z"
    unfolding m0 by (simp add: algebra_simps)
  then have "sum_list (map2 (*) (map (\<lambda>a. (a - wmean ?v ws) * (a - wmean ?v ws)) ?v) ws)
      = k * k * sum_list (map2 (*) (map (\<lambda>v. (v - wmean z ws) * (v - wmean z ws)) z) ws)"
    by (simp only: sum_list_map2_scale)
  then show ?thesis
    unfolding wvariance_def by simp
qed

lemma chirp_weights:
  assumes "longitudinal_energy_chirp z px py pz w = Inr K"
  shows "\<exists>ws. w = Array ws \<and> length ws = length z \<and> sum_list ws \<noteq> 0
    \<and> np_average z w = Inr (wmean z ws)"
  using assms
  by (auto simp: longitudinal_energy_chirp_def np_average_def avg_weights_def Let_def
      split: sum.splits weights.splits if_splits)

text \<open>
  C10. Where \<open>longitudinal_energy_chirp\<close> returns the chirp \<open>K\<close> and \<open>rms_length(z, w)\<close>
  returns a finite length, \<open>rms_correlated_energy_spread\<close> returns \<open>|K|\<close> times that length:
  the weighted standard deviation of \<open>K*(z - mean_z)\<close> is \<open>|K|\<close> times the one of \<open>z\<close>.
\<close>

theorem correlated_energy_spread_factors:
  assumes "longitudinal_energy_chirp z px py pz w = Inr K"
    and "rms_length z w = Inr (Some s)"
  shows "rms_correlated_energy_spread z px py pz w = Inr (Some (\<bar>K\<bar> * s))"
proof -
  from chirp_weights [OF assms(1)] obtain ws where w: "w = Array ws"
    and len: "length ws = length z" and tot: "sum_list ws \<noteq> 0"
    and mz: "np_average z w = Inr (wmean z ws)" by blast
  from tot have nz: "\<not> list_all (\<lambda>c. c = 0) ws"
    by (induction ws) auto
  from assms(2) have var: "0 \<le> wvariance z ws" and s: "s = sqrt (wvariance z ws)"
    using w nz tot
    by (auto simp: rms_length_def weighted_std_def weights_list_def those_map_Some fsqrt_def
        split: if_splits)
  have "map (\<lambda>d. Some (K * d)) (map (\<lambda>v. v - wmean z ws) z)
      = map Some (map (\<lambda>v. K * (v - wmean z ws)) z)"
    by simp
  moreover have "wvariance (map (\<lambda>v. K * (v - wmean z ws)) z) ws = K * K * wvariance z ws"
    using len tot by (simp add: wvariance_scaled)
  moreover have "0 \<le> K * K * wvariance z ws" using var by simp
  moreover have "sqrt (K * K * wvariance z ws) = \<bar>K\<bar> * s"
    by (simp add: s real_sqrt_mult)
  ultimately show ?thesis
    using assms(1) mz w nz tot
    by (simp add: rms_correlated_energy_spread_def weighted_std_def weights_list_def
        those_map_Some fsqrt_def Let_def del: map_map)
qed












lemma sqrt_25_16: "sqrt (25 / 16) = 5 / 4"
  by (rule real_sqrt_unique) (simp_all add: power2_eq_square)

lemma sqrt_quarter: "sqrt (1 / 4) = 1 / 2"
  by (rule real_sqrt_unique) (simp_all add: power2_eq_square)

lemma chirp_example:
  "longitudinal_energy_chirp [0, 1] [0, 0] [0, 0] [0, 3 / 4] (Array [1, 1]) = Inr (2 / 9)"
proof -
  have e: "energy [0, 0] [0, 0] [0, 3 / 4] = [1, 5 / 4]"
    using sqrt_25_16 by (simp add: energy_def)
  show ?thesis
    by (simp add: longitudinal_energy_chirp_def e np_average_def avg_weights_def wmean_def
        np_polyfit1_def fdiv_def fit_line_def Let_def numeral_eq_Suc)
qed

lemma rms_length_example: "rms_length [0, 1] (Array [1, 1]) = Inr (Some (1 / 2))"
  using sqrt_quarter
  by (simp add: rms_length_def weighted_std_def weights_list_def wvariance_def wmean_def
      fsqrt_def)

theorem correlated_energy_spread_factors_witness:
  "rms_correlated_energy_spread [0, 1] [0, 0] [0, 0] [0, 3 / 4] (Array [1, 1])
     = Inr (Some (\<bar>2 / 9\<bar> * (1 / 2)))"
  by (rule correlated_energy_spread_factors [OF chirp_example rms_length_example])


section \<open>Properties of the slices\<close>

lemma slice_loop_snd:
  assumes "slice_loop f js = Inr rs"
    and "\<And>i r. i \<in> set js \<Longrightarrow> f i = Inr r \<Longrightarrow> snd r = g i"
  shows "map snd rs = map g js"
  using assms
proof (induction js arbitrary: rs)
  case Nil
  then show ?case by simp
next
  case (Cons i js)
  from Cons.prems(1) obtain r rs' where r: "f i = Inr r" and rs': "slice_loop f js = Inr rs'"
    and rs: "rs = r # rs'"
    by (auto split: sum.splits)
  have "snd r = g i" using Cons.prems(2) r by simp
  moreover have "map snd rs' = map g js" using Cons.IH [OF rs'] Cons.prems(2) by simp
  ultimately show ?case using rs by simp
qed

lemma select_map:
  "select (map P z) arr = map snd (filter (\<lambda>(v, c). P v) (zip z arr))"
proof (induction z arbitrary: arr)
  case Nil
  then show ?case by (simp add: select_def)
next
  case (Cons v z)
  then show ?case by (cases arr) (auto simp: select_def)
qed

lemma length_select:
  "length z = length arr \<Longrightarrow> length (select (map P z) arr) = length (filter P z)"
  by (induction z arr rule: list_induct2) (auto simp: select_def)

lemma list_ex_map_id: "list_ex id (map P z) = (filter P z \<noteq> [])"
  by (induction z) auto

lemma weight_where_none: "filter P z = [] \<Longrightarrow> weight_where P z w = 0"
proof -
  assume a: "filter P z = []"
  have "filter (\<lambda>(v, c). P v) (zip z ws) = []" for ws :: "real list"
    using a by (auto simp: filter_empty_conv dest: set_zip_leftD)
  with a show ?thesis by (simp add: weight_where_def split: weights.splits)
qed

lemma weight_where_split:
  assumes "\<And>v. \<not> (P v \<and> Q v)"
  shows "weight_where P z w + weight_where Q z w = weight_where (\<lambda>v. P v \<or> Q v) z w"
proof (cases w)
  case (Scalar s)
  have "length (filter P z) + length (filter Q z) = length (filter (\<lambda>v. P v \<or> Q v) z)"
    using assms by (induction z) auto
  then have "real (length (filter P z)) + real (length (filter Q z))
      = real (length (filter (\<lambda>v. P v \<or> Q v) z))"
    by (metis of_nat_add)
  then show ?thesis using Scalar by (simp add: weight_where_def distrib_left [symmetric])
next
  case (Array ws)
  have "sum_list (map snd (filter (\<lambda>(v, c). P v) ps)) + sum_list (map snd (filter (\<lambda>(v, c). Q v) ps))
      = sum_list (map snd (filter (\<lambda>(v, c). P v \<or> Q v) ps))" for ps :: "(real \<times> real) list"
    using assms by (induction ps) auto
  then show ?thesis using Array by (simp add: weight_where_def)
qed

lemma weight_where_cong:
  "(\<And>v. v \<in> set z \<Longrightarrow> P v = Q v) \<Longrightarrow> weight_where P z w = weight_where Q z w"
proof -
  assume a: "\<And>v. v \<in> set z \<Longrightarrow> P v = Q v"
  then have "filter P z = filter Q z" by (simp cong: filter_cong)
  moreover have "filter (\<lambda>(v, c). P v) (zip z ws) = filter (\<lambda>(v, c). Q v) (zip z ws)"
    for ws :: "real list"
    using a by (auto intro!: filter_cong dest: set_zip_leftD)
  ultimately show ?thesis by (simp add: weight_where_def split: weights.splits)
qed

lemma weight_chain:
  assumes "\<And>i. i < k \<Longrightarrow> e i \<le> e (Suc i)"
  shows "e 0 \<le> e k \<and>
    sum_list (map (\<lambda>i. weight_where (in_slice (e i) (e (Suc i))) z w) [0..<k])
      = weight_where (in_slice (e 0) (e k)) z w"
  using assms
proof (induction k)
  case 0
  have "filter (in_slice (e 0) (e 0)) z = []"
    by (simp add: in_slice_def filter_empty_conv)
  then show ?case by (simp add: weight_where_none)
next
  case (Suc k)
  then have IH: "e 0 \<le> e k"
    "sum_list (map (\<lambda>i. weight_where (in_slice (e i) (e (Suc i))) z w) [0..<k])
      = weight_where (in_slice (e 0) (e k)) z w"
    by simp_all
  have step: "e k \<le> e (Suc k)" using Suc.prems by simp
  have "weight_where (in_slice (e 0) (e k)) z w + weight_where (in_slice (e k) (e (Suc k))) z w
      = weight_where (\<lambda>v. in_slice (e 0) (e k) v \<or> in_slice (e k) (e (Suc k)) v) z w"
    by (rule weight_where_split) (auto simp: in_slice_def)
  also have "\<dots> = weight_where (in_slice (e 0) (e (Suc k))) z w"
    using IH(1) step by (intro weight_where_cong) (auto simp: in_slice_def)
  finally show ?case using IH step by simp
qed

lemma relative_spread_scalar: "relative_rms_energy_spread px py pz (Scalar s) \<noteq> Inr r"
  by (simp add: relative_rms_energy_spread_def mean_energy_def mean_kinetic_energy_def
      np_average_def avg_weights_def np_abs_def split: sum.splits)

lemma emittance_scalar:
  assumes "1 < length x"
  shows "normalized_transverse_rms_emittance pf2 x px py pz (Scalar s) d \<noteq> Inr r"
proof (cases d)
  case True
  have "remove_quadratic pf2 x px py pz (Scalar s) \<noteq> Inr x'" for x'
    by (simp add: remove_quadratic_def np_average_def avg_weights_def Let_def
        split: option.splits)
  then show ?thesis using assms True
    by (auto simp: normalized_transverse_rms_emittance_def split: sum.splits)
next
  case False
  then show ?thesis using assms
    by (simp add: normalized_transverse_rms_emittance_def np_cov_def cov_weights_def np_abs_def)
qed

lemma select_weight:
  "np_sum (select_weights (map P z) (Array ws)) = weight_where P z (Array ws)"
  by (simp add: np_sum_def select_weights_def select_map weight_where_def)

lemma energy_slice_weight:
  assumes "energy_spread_of_slice z px py pz w lims i = Inr r"
  shows "snd r = weight_where (in_slice (lims ! i) (lims ! (i + 1))) z w"
proof (cases "filter (in_slice (lims ! i) (lims ! (i + 1))) z = []")
  case True
  with assms show ?thesis
    by (auto simp: energy_spread_of_slice_def list_ex_map_id weight_where_none Let_def)
next
  case False
  show ?thesis
  proof (cases w)
    case (Scalar s)
    with assms False show ?thesis
      by (auto simp: energy_spread_of_slice_def list_ex_map_id Let_def select_weights_def
          relative_spread_scalar split: sum.splits)
  next
    case (Array ws)
    with assms False show ?thesis
      by (auto simp: energy_spread_of_slice_def list_ex_map_id Let_def select_weight
          split: sum.splits)
  qed
qed

lemma emittance_slice_weight:
  assumes "emittance_of_slice pf2 z x px py pz w d lims i = Inr r" and "length x = length z"
  shows "snd r = weight_where (in_slice (lims ! i) (lims ! (i + 1))) z w"
proof (cases "filter (in_slice (lims ! i) (lims ! (i + 1))) z = []")
  case True
  with assms(1) show ?thesis
    by (auto simp: emittance_of_slice_def list_ex_map_id weight_where_none Let_def)
next
  case False
  let ?P = "in_slice (lims ! i) (lims ! (i + 1))"
  show ?thesis
  proof (cases w)
    case (Scalar s)
    have len: "length (select (map ?P z) x) = length (filter ?P z)"
      using assms(2) by (simp add: length_select)
    from assms(1) False Scalar obtain em where
      "normalized_transverse_rms_emittance pf2 (select (map ?P z) x) (select (map ?P z) px)
         (map_option (select (map ?P z)) py) (map_option (select (map ?P z)) pz) (Scalar s) d
       = Inr em" and r: "snd r = s"
      by (auto simp: emittance_of_slice_def list_ex_map_id Let_def select_weights_def np_sum_def
          split: sum.splits)
    then have "\<not> 1 < length (select (map ?P z) x)"
      using emittance_scalar by blast
    with len False have "length (filter ?P z) = 1"
      by (cases "filter ?P z") auto
    with r Scalar show ?thesis by (simp add: weight_where_def)
  next
    case (Array ws)
    with assms(1) False show ?thesis
      by (auto simp: emittance_of_slice_def list_ex_map_id Let_def select_weight
          split: sum.splits)
  qed
qed

lemma edge_mono:
  assumes "lo \<le> hi"
  shows "edge lo hi n i \<le> edge lo hi n (Suc i)"
proof -
  have "0 \<le> (hi - lo) / real n" using assms by simp
  moreover have "edge lo hi n (Suc i) = edge lo hi n i + (hi - lo) / real n"
    by (simp add: edge_def distrib_right add_divide_distrib)
  ultimately show ?thesis by simp
qed

lemma create_beam_slices_edges:
  assumes "create_beam_slices z n_slices len_slice = Inr (lims, n)" and "0 \<le> n"
  shows "\<exists>lo hi. np_min z = Inr lo \<and> np_max z = Inr hi \<and> lo \<le> hi
    \<and> lims = np_linspace lo hi (Suc (nat n))"
proof -
  from assms obtain lo hi where lo: "np_min z = Inr lo" and hi: "np_max z = Inr hi"
    and lims: "lims = np_linspace lo hi (nat (n + 1))"
    by (auto simp: create_beam_slices_def split: sum.splits option.splits if_splits)
  from lo obtain v where "v \<in> set z" by (cases z) (auto simp: np_min_def)
  then have "lo \<le> hi" using np_min_le [OF lo] np_max_ge [OF hi] by fastforce
  moreover have "nat (n + 1) = Suc (nat n)" using assms(2) by simp
  ultimately show ?thesis using lo hi lims by simp
qed

lemma slices_total:
  assumes "np_min z = Inr lo" and "np_max z = Inr hi" and "lo \<le> hi" and "0 < k"
  shows "sum_list (map (\<lambda>i. weight_where (in_slice (np_linspace lo hi (Suc k) ! i)
                                               (np_linspace lo hi (Suc k) ! (i + 1))) z w) [0..<k])
    = weight_where (\<lambda>v. lo < v) z w"
proof -
  let ?e = "edge lo hi k"
  have "map (\<lambda>i. weight_where (in_slice (np_linspace lo hi (Suc k) ! i)
                                        (np_linspace lo hi (Suc k) ! (i + 1))) z w) [0..<k]
      = map (\<lambda>i. weight_where (in_slice (?e i) (?e (Suc i))) z w) [0..<k]"
    by (rule map_cong) (simp_all add: linspace_nth)
  then have "sum_list (map (\<lambda>i. weight_where (in_slice (np_linspace lo hi (Suc k) ! i)
                                        (np_linspace lo hi (Suc k) ! (i + 1))) z w) [0..<k])
      = sum_list (map (\<lambda>i. weight_where (in_slice (?e i) (?e (Suc i))) z w) [0..<k])"
    by (simp only:)
  also have "\<dots> = weight_where (in_slice (?e 0) (?e k)) z w"
    using weight_chain [of k ?e z w] edge_mono [OF assms(3)] by simp
  also have "\<dots> = weight_where (\<lambda>v. lo < v) z w"
    using assms(4) np_max_ge [OF assms(2)]
    by (intro weight_where_cong) (auto simp: in_slice_def edge_def)
  finally show ?thesis .
qed

lemma minimum_in_no_slice:
  assumes "lo \<le> hi" and "i < k"
  shows "\<not> in_slice (np_linspace lo hi (Suc k) ! i) (np_linspace lo hi (Suc k) ! (i + 1)) lo"
proof -
  have "0 \<le> real i * ((hi - lo) / real k)" using assms(1) by simp
  then have "lo \<le> edge lo hi k i" by (simp add: edge_def)
  then show ?thesis using assms(2) by (simp add: linspace_nth in_slice_def)
qed

lemma energy_slices_weights:
  assumes "create_beam_slices z n_slices len_slice = Inr (lims, n)" and "0 \<le> n"
    and "relative_rms_slice_energy_spread z px py pz w n_slices len_slice = Inr (sp, sw, lims')"
  shows "lims' = lims
    \<and> sw = map (\<lambda>i. weight_where (in_slice (lims ! i) (lims ! (i + 1))) z w) [0..<nat n]"
proof (cases "slice_loop (energy_spread_of_slice z px py pz w lims) [0..<nat n]")
  case (Inl e)
  with assms show ?thesis by (simp add: relative_rms_slice_energy_spread_def)
next
  case (Inr rs)
  have "map snd rs = map (\<lambda>i. weight_where (in_slice (lims ! i) (lims ! (i + 1))) z w) [0..<nat n]"
    using Inr by (rule slice_loop_snd) (rule energy_slice_weight)
  moreover have "Inr (map fst rs, map snd rs, lims) = (Inr (sp, sw, lims') :: error + _)"
    using Inr assms by (simp add: relative_rms_slice_energy_spread_def)
  then have "sw = map snd rs" "lims' = lims" by simp_all
  ultimately show ?thesis by simp
qed

lemma emittance_slices_weights:
  assumes "create_beam_slices z n_slices len_slice = Inr (lims, n)" and "0 \<le> n"
    and "length x = length z"
    and "normalized_transverse_rms_slice_emittance pf2 z x px py pz w d n_slices len_slice
           = Inr (sp, sw, lims')"
  shows "lims' = lims
    \<and> sw = map (\<lambda>i. weight_where (in_slice (lims ! i) (lims ! (i + 1))) z w) [0..<nat n]"
proof (cases "slice_loop (emittance_of_slice pf2 z x px py pz w d lims) [0..<nat n]")
  case (Inl e)
  with assms show ?thesis by (simp add: normalized_transverse_rms_slice_emittance_def)
next
  case (Inr rs)
  have "map snd rs = map (\<lambda>i. weight_where (in_slice (lims ! i) (lims ! (i + 1))) z w) [0..<nat n]"
    using Inr by (rule slice_loop_snd) (rule emittance_slice_weight [OF _ assms(3)])
  moreover have "Inr (map fst rs, map snd rs, lims) = (Inr (sp, sw, lims') :: error + _)"
    using Inr assms by (simp add: normalized_transverse_rms_slice_emittance_def)
  then have "sw = map snd rs" "lims' = lims" by simp_all
  ultimately show ?thesis by simp
qed

lemma no_slices:
  assumes "create_beam_slices z n_slices len_slice = Inr (lims, 0)"
  shows "relative_rms_slice_energy_spread z px py pz w n_slices len_slice = Inr ([], [], lims)"
    and "normalized_transverse_rms_slice_emittance pf2 z x px py' pz' w d n_slices len_slice
           = Inr ([], [], lims)"
  using assms
  by (simp_all add: relative_rms_slice_energy_spread_def
      normalized_transverse_rms_slice_emittance_def)

text \<open>
  C6 as amended. The first edge is \<open>min(z)\<close>, and a particle at \<open>min(z)\<close> passes the filter
  \<open>(z > a) & (z <= b)\<close> of no slice. With at least one slice, whenever
  \<open>relative_rms_slice_energy_spread\<close> returns, and whenever
  \<open>normalized_transverse_rms_slice_emittance\<close> returns, the sum of the returned slice
  weights is the weight of the particles with \<open>z > min(z)\<close>. With no slice both functions
  return empty arrays.
\<close>

theorem slice_weights_partition:
  assumes "create_beam_slices z n_slices len_slice = Inr (lims, n)" and "0 \<le> n"
    and "length x = length z"
  shows "np_min z = Inr (lims ! 0)
    \<and> (\<forall>i < nat n. \<not> in_slice (lims ! i) (lims ! (i + 1)) (lims ! 0))
    \<and> (1 \<le> n \<and> relative_rms_slice_energy_spread z px py pz w n_slices len_slice
                   = Inr (sp, sw, lims')
         \<longrightarrow> lims' = lims \<and> sum_list sw = weight_where (\<lambda>v. lims ! 0 < v) z w)
    \<and> (1 \<le> n \<and> normalized_transverse_rms_slice_emittance qfit z x px' py' pz' w disp_corrected
                   n_slices len_slice = Inr (em, sw', lims'')
         \<longrightarrow> lims'' = lims \<and> sum_list sw' = weight_where (\<lambda>v. lims ! 0 < v) z w)
    \<and> (n = 0
         \<longrightarrow> relative_rms_slice_energy_spread z px py pz w n_slices len_slice = Inr ([], [], lims)
           \<and> normalized_transverse_rms_slice_emittance qfit z x px' py' pz' w disp_corrected
                n_slices len_slice = Inr ([], [], lims))"
proof -
  from create_beam_slices_edges [OF assms(1,2)] obtain lo hi
    where lo: "np_min z = Inr lo" and hi: "np_max z = Inr hi" and le: "lo \<le> hi"
      and lims: "lims = np_linspace lo hi (Suc (nat n))" by blast
  let ?k = "nat n"
  let ?g = "\<lambda>i. weight_where (in_slice (lims ! i) (lims ! (i + 1))) z w"
  have l0: "lims ! 0 = lo" by (simp add: lims linspace_nth edge_def)
  have total: "sum_list (map ?g [0..<?k]) = weight_where (\<lambda>v. lims ! 0 < v) z w" if "1 \<le> n"
  proof -
    from that have k: "0 < ?k" by simp
    show ?thesis unfolding l0 unfolding lims by (rule slices_total [OF lo hi le k])
  qed
  have first: "np_min z = Inr (lims ! 0)" using lo l0 by simp
  have none: "\<forall>i < ?k. \<not> in_slice (lims ! i) (lims ! (i + 1)) (lims ! 0)"
    unfolding l0 unfolding lims using minimum_in_no_slice [OF le] by blast
  have spread: "lims' = lims \<and> sum_list sw = weight_where (\<lambda>v. lims ! 0 < v) z w"
    if "1 \<le> n"
      and "relative_rms_slice_energy_spread z px py pz w n_slices len_slice = Inr (sp, sw, lims')"
    using energy_slices_weights [OF assms(1,2) that(2)] total [OF that(1)] by simp
  have emitt: "lims'' = lims \<and> sum_list sw' = weight_where (\<lambda>v. lims ! 0 < v) z w"
    if "1 \<le> n"
      and "normalized_transverse_rms_slice_emittance qfit z x px' py' pz' w disp_corrected
             n_slices len_slice = Inr (em, sw', lims'')"
    using emittance_slices_weights [OF assms(1,2,3) that(2)] total [OF that(1)] by simp
  have empty: "relative_rms_slice_energy_spread z px py pz w n_slices len_slice
        = Inr ([], [], lims)
      \<and> normalized_transverse_rms_slice_emittance qfit z x px' py' pz' w disp_corrected
          n_slices len_slice = Inr ([], [], lims)" if "n = 0"
    using no_slices [of z n_slices len_slice lims] assms(1) that by simp
  from first none spread emitt empty show ?thesis by blast
qed

lemma slices_example: "create_beam_slices [0, 1, 2, 3] 2 None = Inr ([0, 3 / 2, 3], 2)"
  by (simp add: create_beam_slices_def np_max_def np_min_def np_linspace_def edge_def
      numeral_eq_Suc)

lemma spread_example_one:
  "relative_rms_energy_spread [0] [0] [0] (Array [2]) = Inr (Some 0)"
  by (simp add: relative_rms_energy_spread_def rms_energy_spread_def weighted_std_def
      weights_list_def energy_def wvariance_def wmean_def fsqrt_def mean_energy_def
      mean_kinetic_energy_def momentum_def np_average_def avg_weights_def np_abs_def fdiv_def)

lemma spread_example_two:
  "relative_rms_energy_spread [0, 0] [0, 0] [0, 0] (Array [3, 4]) = Inr (Some 0)"
  by (simp add: relative_rms_energy_spread_def rms_energy_spread_def weighted_std_def
      weights_list_def energy_def wvariance_def wmean_def fsqrt_def mean_energy_def
      mean_kinetic_energy_def momentum_def np_average_def avg_weights_def np_abs_def fdiv_def)

lemma slice_spread_example:
  "relative_rms_slice_energy_spread [0, 1, 2, 3] [0, 0, 0, 0] [0, 0, 0, 0] [0, 0, 0, 0]
     (Array [1, 2, 3, 4]) 2 None = Inr ([Some 0, Some 0], [2, 7], [0, 3 / 2, 3])"
  by (simp add: relative_rms_slice_energy_spread_def slices_example energy_spread_of_slice_def
      in_slice_def select_def select_weights_def np_sum_def spread_example_one
      spread_example_two numeral_eq_Suc)

lemma emittance_example_one:
  "normalized_transverse_rms_emittance pf2 [4] [1] None None (Array [2]) False = Inr (Some 0)"
  by (simp add: normalized_transverse_rms_emittance_def)

lemma emittance_example_two:
  "normalized_transverse_rms_emittance pf2 [1, 2] [3, 5] None None (Array [3, 4]) False
     = Inr (Some 0)"
  by (simp add: normalized_transverse_rms_emittance_def np_cov_def cov_weights_def np_abs_def
      cov_matrix_def cov_entry_def wmean_def sqrt_det_def np_linalg_det_def fsqrt_def Let_def)

lemma slice_emittance_example:
  "normalized_transverse_rms_slice_emittance pf2 [0, 1, 2, 3] [7, 4, 1, 2] [0, 1, 3, 5] None None
     (Array [1, 2, 3, 4]) False 2 None = Inr ([Some 0, Some 0], [2, 7], [0, 3 / 2, 3])"
  by (simp add: normalized_transverse_rms_slice_emittance_def slices_example
      emittance_of_slice_def in_slice_def select_def select_weights_def np_sum_def
      emittance_example_one emittance_example_two numeral_eq_Suc)

lemma no_slices_example: "create_beam_slices [0, 1] 0 None = Inr ([0], 0)"
  by (simp add: create_beam_slices_def np_max_def np_min_def np_linspace_def edge_def)

theorem slice_weights_partition_witness:
  "np_min [0, 1, 2, 3] = Inr 0
    \<and> \<not> in_slice 0 (3 / 2) 0 \<and> \<not> in_slice (3 / 2) 3 0
    \<and> relative_rms_slice_energy_spread [0, 1, 2, 3] [0, 0, 0, 0] [0, 0, 0, 0] [0, 0, 0, 0]
         (Array [1, 2, 3, 4]) 2 None = Inr ([Some 0, Some 0], [2, 7], [0, 3 / 2, 3])
    \<and> normalized_transverse_rms_slice_emittance (\<lambda>a b c. Inl LinAlgError) [0, 1, 2, 3]
         [7, 4, 1, 2] [0, 1, 3, 5] None None (Array [1, 2, 3, 4]) False 2 None
         = Inr ([Some 0, Some 0], [2, 7], [0, 3 / 2, 3])
    \<and> sum_list [2, 7] = weight_where ((<) 0) [0, 1, 2, 3] (Array [1, 2, 3, 4])
    \<and> relative_rms_slice_energy_spread [0, 1] [0, 0] [0, 0] [0, 0] (Array [1, 1]) 0 None
         = Inr ([], [], [0])
    \<and> normalized_transverse_rms_slice_emittance (\<lambda>a b c. Inl LinAlgError) [0, 1] [7, 4] [0, 1]
         None None (Array [1, 1]) False 0 None = Inr ([], [], [0])"
proof -
  have len: "length [7, 4, 1, 2 :: real] = length [0, 1, 2, 3 :: real]" by simp
  note two = slice_weights_partition [where px = "[0, 0, 0, 0]" and py = "[0, 0, 0, 0]"
      and pz = "[0, 0, 0, 0]" and w = "Array [1, 2, 3, 4]" and sp = "[Some 0, Some 0]"
      and sw = "[2, 7]" and lims' = "[0, 3 / 2, 3]" and qfit = "\<lambda>a b c. Inl LinAlgError"
      and px' = "[0, 1, 3, 5]" and py' = None and pz' = None and disp_corrected = False
      and em = "[Some 0, Some 0]" and sw' = "[2, 7]" and lims'' = "[0, 3 / 2, 3]",
      OF slices_example _ len]
  have r1: "np_min [0, 1, 2, 3] = Inr ([0, 3 / 2, 3] ! 0)"
    and r2: "\<forall>i < nat 2. \<not> in_slice ([0, 3 / 2, 3] ! i) ([0, 3 / 2, 3] ! (i + 1))
               ([0, 3 / 2, 3] ! 0 :: real)"
    using two by simp_all
  have r3: "sum_list [2, 7]
      = weight_where (\<lambda>v. [0, 3 / 2, 3] ! 0 < v) [0, 1, 2, 3] (Array [1, 2, 3, 4])"
    using two slice_spread_example by simp
  have r4: "sum_list [2, 7]
      = weight_where (\<lambda>v. [0, 3 / 2, 3] ! 0 < v) [0, 1, 2, 3] (Array [1, 2, 3, 4])"
    using two slice_emittance_example [of "\<lambda>a b c. Inl LinAlgError"] by simp
  have len0: "length [7, 4 :: real] = length [0, 1 :: real]" by simp
  from slice_weights_partition [where px = "[0, 0]" and py = "[0, 0]" and pz = "[0, 0]"
      and w = "Array [1, 1]" and qfit = "\<lambda>a b c. Inl LinAlgError" and px' = "[0, 1]"
      and py' = None and pz' = None and disp_corrected = False, OF no_slices_example _ len0]
  have r5: "relative_rms_slice_energy_spread [0, 1] [0, 0] [0, 0] [0, 0] (Array [1, 1]) 0 None
         = Inr ([], [], [0])"
    and r6: "normalized_transverse_rms_slice_emittance (\<lambda>a b c. Inl LinAlgError) [0, 1] [7, 4]
         [0, 1] None None (Array [1, 1]) False 0 None = Inr ([], [], [0])"
    by simp_all
  from r2 [THEN spec, of 0] have "\<not> in_slice 0 (3 / 2) (0 :: real)"
    by simp
  moreover from r2 [THEN spec, of 1] have "\<not> in_slice (3 / 2) 3 (0 :: real)"
    by simp
  ultimately show ?thesis
    using r1 r3 r5 r6 slice_spread_example slice_emittance_example [of "\<lambda>a b c. Inl LinAlgError"]
    by simp
qed

text \<open>
  C6 as stated, for every number of slices, fails where there is no slice: for two
  particles of weight 1 at \<open>z = 0\<close> and \<open>z = 1\<close> and \<open>n_slices = 0\<close> the loop does not run,
  the returned weights are empty, and their sum 0 is not the weight 1 of the particle
  above the minimum.
\<close>

theorem slice_weights_partition_counterexample:
  "relative_rms_slice_energy_spread [0, 1] [0, 0] [0, 0] [0, 0] (Array [1, 1]) 0 None
     = Inr ([], [], [0])
   \<and> normalized_transverse_rms_slice_emittance (\<lambda>a b c. Inl LinAlgError) [0, 1] [7, 4] [0, 1]
       None None (Array [1, 1]) False 0 None = Inr ([], [], [0])
   \<and> sum_list [] \<noteq> weight_where ((<) 0) [0, 1] (Array [1, 1])"
  by (simp add: relative_rms_slice_energy_spread_def normalized_transverse_rms_slice_emittance_def
      create_beam_slices_def np_max_def np_min_def np_linspace_def edge_def weight_where_def)

section \<open>Properties of the Twiss parameters\<close>

lemma twiss_tr_scalar: "fst (twiss_tr x px pz py (Scalar s) d) \<noteq> Inr r"
  by (simp add: twiss_tr_def np_average_def avg_weights_def Let_def split: sum.splits)

text \<open>
  \<open>twiss_parameters_corrected\<close> returns on no input: the call of line 124 leaves the weights
  of \<open>twiss_parameters\<close> at the number 1, which \<open>np.cov\<close> and \<open>np.average\<close> reject.
\<close>

lemma twiss_parameters_corrected_never_returns:
  "twiss_parameters_corrected pf2 x px py pz w \<noteq> Inr r"
  by (simp add: twiss_parameters_corrected_def twiss_parameters_def twiss_tr_scalar
      split: sum.splits prod.splits)

lemma sqrt_169: "sqrt 169 = 13"
  by (rule real_sqrt_unique) simp_all

lemma ens_momentum: "momentum ens_px ens_py ens_pz = [5, 5, 13, 13]"
  by (simp add: momentum_def ens_px_def ens_py_def ens_pz_def sqrt_25 sqrt_169)

lemma ens_dgamma:
  "dgamma_of [5, 5, 13, 13] (57 / 5) = [Some (- 32 / 57), Some (- 32 / 57), Some (8 / 57), Some (8 / 57)]"
  by (simp add: dgamma_of_def fdiv_def)

lemma ens_fit_x:
  "np_polyfit1 [Some (- 32 / 57), Some (- 32 / 57), Some (8 / 57), Some (8 / 57)]
     (map Some ens_x) (Some (Array ens_w)) = Inr (0, 0)"
  by (simp add: np_polyfit1_def fit_line_def ens_x_def ens_w_def Let_def)

lemma ens_xp: "map2 fdiv ens_px ens_pz = [Some (3 / 4), Some (- 3 / 4), Some (1 / 4), Some (- 1 / 4)]"
  by (simp add: ens_px_def ens_pz_def fdiv_def)

lemma ens_fit_xp:
  "np_polyfit1 [Some (- 32 / 57), Some (- 32 / 57), Some (8 / 57), Some (8 / 57)]
     [Some (3 / 4), Some (- 3 / 4), Some (1 / 4), Some (- 1 / 4)] (Some (Array ens_w)) = Inr (0, 0)"
  by (simp add: np_polyfit1_def fit_line_def ens_w_def Let_def)

lemma ens_remove_dispersion:
  "remove_dispersion ens_x ens_px ens_py ens_pz (Array ens_w) = Inr (ens_x, ens_px)"
proof -
  have a1: "np_average [5, 5, 13, 13] (Array ens_w) = Inr (57 / 5)"
    by (simp add: np_average_def avg_weights_def wmean_def ens_w_def)
  have a2: "np_average ens_x (Array ens_w) = Inr 0"
    by (simp add: np_average_def avg_weights_def wmean_def ens_w_def ens_x_def)
  have r: "map2 (*) (map2 (\<lambda>v d. v - 0 * d) [3 / 4, - 3 / 4, 1 / 4, - 1 / 4]
             [- 32 / 57, - 32 / 57, 8 / 57, 8 / 57]) ens_pz = ens_px"
    by (simp add: ens_pz_def ens_px_def)
  have r': "map2 (\<lambda>v d. v - 0 * d) ens_x [- 32 / 57, - 32 / 57, 8 / 57, 8 / 57] = ens_x"
    by (simp add: ens_x_def)
  show ?thesis
    unfolding remove_dispersion_def ens_momentum Let_def a1 a2 sum.case ens_dgamma ens_fit_x
      ens_xp ens_fit_xp
    using r r' by simp
qed

lemma sqrt_100_1089: "sqrt (100 / 1089) = 10 / 33"
  by (rule real_sqrt_unique) (simp_all add: power2_eq_square)

lemma ens_emittance:
  "transverse_trace_space_rms_emittance ens_x ens_px None (Some ens_pz) (Array ens_w) False
     = Inr (Some (10 / 33))"
proof -
  have c: "cov_matrix ens_x [3 / 4, - (3 / 4), 1 / 4, - (1 / 4)] [1, 1, 4, 4]
      = Some (50 / 33, 35 / 66, 35 / 66, 65 / 264)"
    by (simp add: cov_matrix_def cov_entry_def wmean_def ens_x_def Let_def)
  have d: "np_linalg_det (50 / 33, 35 / 66, 35 / 66, 65 / 264) = 100 / 1089"
    by (simp add: np_linalg_det_def)
  have len: "length ens_x = 4" by (simp add: ens_x_def)
  show ?thesis
    by (simp add: transverse_trace_space_rms_emittance_def ens_xp np_cov_def cov_weights_def
        np_abs_def ens_w_def those_map_Some c d sqrt_det_def fsqrt_def sqrt_100_1089 len)
qed

lemma ens_spec_value:
  "twiss_parameters_corrected_spec pf2 ens_x ens_px ens_py ens_pz (Array ens_w)
     = Inr (Some (- 231 / 200), Some (33 / 10), Some (93361 / 132000))"
proof -
  have a: "np_average ens_x (Array ens_w) = Inr 0"
    by (simp add: np_average_def avg_weights_def wmean_def ens_w_def ens_x_def)
  have b: "np_average_fl [Some (3 / 4), Some (- 3 / 4), Some (1 / 4), Some (- 1 / 4)] (Array ens_w)
      = Inr (Some 0)"
    by (simp add: np_average_fl_def avg_weights_def wmean_def ens_w_def)
  have x1: "map (\<lambda>v. Some (v - 0)) ens_x = [Some 1, Some (- 1), Some 1, Some (- 1)]"
    by (simp add: ens_x_def)
  have xp1: "sub_fl [Some (3 / 4), Some (- 3 / 4), Some (1 / 4), Some (- 1 / 4)] (Some 0)
      = [Some (3 / 4), Some (- 3 / 4), Some (1 / 4), Some (- 1 / 4)]"
    by (simp add: sub_fl_def)
  have m2: "np_average_fl (mul_fl [Some 1, Some (- 1), Some 1, Some (- 1)]
        [Some 1, Some (- 1), Some 1, Some (- 1)]) (Array ens_w) = Inr (Some 1)"
    by (simp add: np_average_fl_def avg_weights_def wmean_def ens_w_def mul_fl_def)
  have m11: "np_average_fl (mul_fl [Some 1, Some (- 1), Some 1, Some (- 1)]
        [Some (3 / 4), Some (- 3 / 4), Some (1 / 4), Some (- 1 / 4)]) (Array ens_w)
      = Inr (Some (7 / 20))"
    by (simp add: np_average_fl_def avg_weights_def wmean_def ens_w_def mul_fl_def)
  have "twiss_tr ens_x ens_px ens_pz None (Array ens_w) False
      = (Inr (Some (- 231 / 200), Some (33 / 10), Some (93361 / 132000)),
         \<lparr>x_arr = [Some 1, Some (- 1), Some 1, Some (- 1)], px_arr = map Some ens_px,
          pz_arr = ens_pz, py_arr = None, w_arr = Array ens_w\<rparr>)"
    unfolding twiss_tr_def ens_emittance ens_xp Let_def a b x1 xp1 sum.case if_False
      prod.case m2 m11
    by (simp add: fdiv_fl_def fdiv_def)
  then show ?thesis
    by (simp add: twiss_parameters_corrected_spec_def ens_remove_dispersion twiss_parameters_def)
qed

lemma ens_code_value:
  "twiss_parameters_corrected pf2 ens_x ens_px ens_py ens_pz (Array ens_w) = Inl IndexError"
proof -
  have len: "length ens_x = 4" by (simp add: ens_x_def)
  have "transverse_trace_space_rms_emittance ens_x ens_px (Some ens_w) (Some ens_pz) (Scalar 1) False
      = Inl IndexError"
    by (simp add: transverse_trace_space_rms_emittance_def ens_xp np_cov_def cov_weights_def
        np_abs_def len)
  then show ?thesis
    by (simp add: twiss_parameters_corrected_def ens_remove_dispersion twiss_parameters_def
        twiss_tr_def weights_list_def)
qed

text \<open>
  C1 at one ensemble. The spec has \<open>twiss_parameters_corrected\<close> return the trace-space
  \<open>twiss_parameters\<close> of the corrected \<open>x\<close> and momenta with the same weights \<open>w\<close>, here
  \<open>(-1.155, 3.3, 0.7073)\<close>. The code passes \<open>w\<close> in the place of \<open>py\<close>, the weights of the
  inner call are the number 1, and the call raises IndexError in \<open>np.cov\<close>.
\<close>

theorem twiss_parameters_corrected_drops_weights:
  "twiss_parameters_corrected pf2 ens_x ens_px ens_py ens_pz (Array ens_w) = Inl IndexError
   \<and> twiss_parameters_corrected_spec pf2 ens_x ens_px ens_py ens_pz (Array ens_w)
       = Inr (Some (- 231 / 200), Some (33 / 10), Some (93361 / 132000))"
  by (simp add: ens_code_value ens_spec_value)

text \<open>However the call ends, \<open>pz\<close>, \<open>py\<close> and \<open>w\<close> are as before.\<close>

lemma twiss_tr_frame:
  "px_arr (snd (twiss_tr x px pz py w disp_corrected)) = map Some px
   \<and> pz_arr (snd (twiss_tr x px pz py w disp_corrected)) = pz
   \<and> py_arr (snd (twiss_tr x px pz py w disp_corrected)) = py
   \<and> w_arr (snd (twiss_tr x px pz py w disp_corrected)) = w"
  unfolding twiss_tr_def Let_def
  by (simp split: sum.split prod.split)

lemma twiss_ph_frame:
  "pz_arr (snd (twiss_ph pf2 x px pz py w disp_corrected)) = pz
   \<and> py_arr (snd (twiss_ph pf2 x px pz py w disp_corrected)) = py
   \<and> w_arr (snd (twiss_ph pf2 x px pz py w disp_corrected)) = w"
  unfolding twiss_ph_def Let_def
  by (simp split: sum.split option.split)

lemma twiss_parameters_frame:
  "pz_arr (snd (twiss_parameters pf2 x px pz py w emitt disp_corrected)) = pz
   \<and> py_arr (snd (twiss_parameters pf2 x px pz py w emitt disp_corrected)) = py
   \<and> w_arr (snd (twiss_parameters pf2 x px pz py w emitt disp_corrected)) = w"
  by (simp add: twiss_parameters_def twiss_tr_frame twiss_ph_frame)









lemma length_momentum:
  "length py = length px \<Longrightarrow> length pz = length px \<Longrightarrow> length (momentum px py pz) = length px"
  by (simp add: momentum_def)















end
